theory Spec2Isabelle
  imports Complex_Main "HOL-Library.Word"
begin

section \<open>Bytes, hashes and the value encoding\<close>

text \<open>
  Go's \<^verbatim>\<open>[]byte\<close> is a list of 8-bit words; \<^verbatim>\<open>common.Hash\<close> is a 32-byte array and
  \<^verbatim>\<open>common.Address\<close> a 20-byte array, both kept as byte lists (of that length whenever
  they come out of \<open>BytesToHash\<close> / \<open>BytesToAddress\<close>). \<^verbatim>\<open>uint64\<close> is a 64-bit word.
\<close>

type_synonym byte = "8 word"
type_synonym bytes = "byte list"
type_synonym hash = bytes
type_synonym address = bytes
type_synonym u64 = "64 word"

definition HashLength :: nat where
  "HashLength = 32"

definition AddressLength :: nat where
  "AddressLength = 20"

text \<open>
  Modelled from the spec: \<^verbatim>\<open>common.BytesToHash\<close> (package \<^verbatim>\<open>common\<close> is not among the
  source files). It sets a 32-byte \<^verbatim>\<open>Hash\<close> (the spec's ``KeyHash (32 bytes)'') from a
  byte slice: a longer slice is cropped from the left, a shorter one is copied to the right
  end of the zeroed array.
\<close>

definition BytesToHash :: "bytes \<Rightarrow> hash" where
  "BytesToHash b =
     (let b' = (if length b > HashLength then drop (length b - HashLength) b else b)
      in replicate (HashLength - length b') 0 @ b')"

text \<open>
  Modelled from the spec: \<^verbatim>\<open>common.BytesToAddress\<close>, the same for the 20-byte
  \<^verbatim>\<open>Address\<close>.
\<close>

definition BytesToAddress :: "bytes \<Rightarrow> address" where
  "BytesToAddress b =
     (let b' = (if length b > AddressLength then drop (length b - AddressLength) b else b)
      in replicate (AddressLength - length b') 0 @ b')"

text \<open>
  Modelled from the spec: \<^verbatim>\<open>common.TrimLeftZeroes\<close>, the spec's
  \<^verbatim>\<open>trimLeadingZeros\<close>: the slice without its leading zero bytes.
\<close>

definition TrimLeftZeroes :: "bytes \<Rightarrow> bytes" where
  "TrimLeftZeroes s = dropWhile (\<lambda>x. x = 0) s"

text \<open>
  Modelled from the spec: \<^verbatim>\<open>rlp.EncodeToBytes\<close> on a byte slice (package \<^verbatim>\<open>rlp\<close> is
  not among the source files), the RLP string rule: a single byte below \<open>0x80\<close> is its own
  encoding; up to 55 bytes get the one-byte header \<open>0x80 + length\<close>; longer strings get
  \<open>0xB7 + (length of the length)\<close>, the big-endian length and the bytes. It never fails
  on a byte slice.
\<close>

fun putint :: "nat \<Rightarrow> bytes" where
  "putint n = (if n = 0 then [] else putint (n div 256) @ [of_nat (n mod 256)])"

declare putint.simps [simp del]

definition rlp_EncodeToBytes :: "bytes \<Rightarrow> bytes" where
  "rlp_EncodeToBytes b =
     (if length b = 1 \<and> hd b < 0x80 then b
      else if length b < 56 then (0x80 + of_nat (length b)) # b
      else (0xB7 + of_nat (length (putint (length b)))) # putint (length b) @ b)"

text \<open>
  \<^verbatim>\<open>func encodeToRlp(bytes []byte) []byte\<close>: the error of \<^verbatim>\<open>rlp.EncodeToBytes\<close> is
  dropped by the source (\<^verbatim>\<open>encoded, _ :=\<close>).
\<close>

definition encodeToRlp :: "bytes \<Rightarrow> bytes" where
  "encodeToRlp bs =
     (let trimmed = TrimLeftZeroes (BytesToHash bs);
          encoded = rlp_EncodeToBytes trimmed
      in encoded)"

text \<open>The last 32 bytes of a slice (all of it when it is shorter).\<close>

definition last32 :: "bytes \<Rightarrow> bytes" where
  "last32 b = drop (length b - 32) b"

text \<open>
  Modelled from the spec: \<^verbatim>\<open>common.FromHex\<close> / \<^verbatim>\<open>common.HexToHash\<close> (package
  \<^verbatim>\<open>common\<close> is not among the source files): the bytes a hex string denotes. An
  optional \<^verbatim>\<open>0x\<close> prefix is dropped, an odd number of digits gets a leading \<^verbatim>\<open>0\<close>, and
  decoding stops at the first character that is not a hex digit (the bytes decoded so far
  are returned).
\<close>

definition hexval :: "char \<Rightarrow> nat option" where
  "hexval c =
     (let n = (of_char c :: nat)
      in if 48 \<le> n \<and> n \<le> 57 then Some (n - 48)
         else if 97 \<le> n \<and> n \<le> 102 then Some (n - 87)
         else if 65 \<le> n \<and> n \<le> 70 then Some (n - 55)
         else None)"

fun Hex2Bytes :: "string \<Rightarrow> bytes" where
  "Hex2Bytes (a # b # rest) =
     (case (hexval a, hexval b) of
        (Some x, Some y) \<Rightarrow> of_nat (16 * x + y) # Hex2Bytes rest
      | _ \<Rightarrow> [])"
| "Hex2Bytes _ = []"

definition has0xPrefix :: "string \<Rightarrow> bool" where
  "has0xPrefix s = (length s \<ge> 2 \<and> s ! 0 = CHR ''0'' \<and> (s ! 1 = CHR ''x'' \<or> s ! 1 = CHR ''X''))"

definition FromHex :: "string \<Rightarrow> bytes" where
  "FromHex s =
     (let s1 = (if has0xPrefix s then drop 2 s else s);
          s2 = (if length s1 mod 2 = 1 then CHR ''0'' # s1 else s1)
      in Hex2Bytes s2)"

definition HexToHash :: "string \<Rightarrow> hash" where
  "HexToHash s = BytesToHash (FromHex s)"

text \<open>Go's conversion \<^verbatim>\<open>[]byte(s)\<close> of a string: its bytes, one per character.\<close>

definition bytes_of_string :: "string \<Rightarrow> bytes" where
  "bytes_of_string s = map of_char s"

section \<open>Data model\<close>

text \<open>\<^verbatim>\<open>types.StateAccount\<close>: the per-address record of the state trie.\<close>

record account =
  Nonce :: u64
  Balance :: int
  Root :: hash
  CodeHash :: bytes

text \<open>\<^verbatim>\<open>type migrationRoot struct { Hash common.Hash; Number uint64 }\<close>: the checkpoint.\<close>

record migrationRoot =
  Hash :: hash
  Number :: u64

text \<open>\<^verbatim>\<open>type MigrationResult struct\<close> of \<^verbatim>\<open>state_migrator.go\<close>.\<close>

record MigrationResult =
  TransitionHeight :: u64
  TransitionTimestamp :: u64
  TransitionBlockHash :: hash

text \<open>
  \<^verbatim>\<open>types.Header\<close>, with the fields the transition block sets. \<^verbatim>\<open>*big.Int\<close> fields
  are unbounded naturals. \<open>HeaderRoot\<close>, \<open>HeaderNumber\<close> and \<open>HeaderNonce\<close> are Go's
  \<^verbatim>\<open>Root\<close>, \<^verbatim>\<open>Number\<close> and \<^verbatim>\<open>Nonce\<close> (the names are taken by the records above).
\<close>

record header =
  ParentHash :: hash
  UncleHash :: hash
  Coinbase :: address
  HeaderRoot :: hash
  TxHash :: hash
  ReceiptHash :: hash
  Bloom :: bytes
  Difficulty :: nat
  HeaderNumber :: nat
  GasLimit :: u64
  GasUsed :: u64
  Time :: u64
  Extra :: bytes
  MixDigest :: hash
  HeaderNonce :: bytes
  BaseFee :: int

text \<open>
  \<^verbatim>\<open>types.Block\<close> as \<^verbatim>\<open>types.NewBlock\<close> builds it: a header and the (here always
  empty) lists of transactions and uncles, kept by their lengths.
\<close>

record block =
  blockHeader :: header
  blockTxs :: nat
  blockUncles :: nat

text \<open>\<^verbatim>\<open>params.KromaConfig\<close>, \<^verbatim>\<open>params.OptimismConfig\<close> and the part of
  \<^verbatim>\<open>params.ChainConfig\<close> the sealing step rewrites.\<close>

record KromaConfig =
  KromaEIP1559Elasticity :: u64
  KromaEIP1559Denominator :: u64
  KromaEIP1559DenominatorCanyon :: u64

record OptimismConfig =
  EIP1559Elasticity :: u64
  EIP1559Denominator :: u64
  EIP1559DenominatorCanyon :: u64

record ChainConfig =
  LondonBlock :: "nat option"
  ArrowGlacierBlock :: "nat option"
  GrayGlacierBlock :: "nat option"
  MergeNetsplitBlock :: "nat option"
  TerminalTotalDifficulty :: "nat option"
  TerminalTotalDifficultyPassed :: bool
  BedrockBlock :: "nat option"
  RegolithTime :: "u64 option"
  Optimism :: "OptimismConfig option"
  Kroma :: "KromaConfig option"

text \<open>
  A trie is the finite map from key hashes to values it holds. What a leaf-only walk of a
  zkTrie yields (\<^verbatim>\<open>it.Leaf()\<close>, \<^verbatim>\<open>it.LeafKey()\<close>, \<^verbatim>\<open>it.LeafBlob()\<close>) and what a walk of an
  MPT yields (\<^verbatim>\<open>it.Leaf()\<close>, \<^verbatim>\<open>it.Hash()\<close>) are records, one per position of the
  iterator.
\<close>

type_synonym trie = "hash \<rightharpoonup> bytes"

text \<open>
  An open \<^verbatim>\<open>*trie.StateTrie\<close>: the entries it holds now, and whether an update has
  changed it since it was opened.
\<close>

record StateTrie =
  entries :: trie
  dirty :: bool

record zkIterNode =
  Leaf :: bool
  LeafKey :: bytes
  LeafBlob :: bytes

record mptIterNode =
  mptLeaf :: bool
  mptHash :: hash

text \<open>
  A decoded JSON value (\<^verbatim>\<open>any\<close> after \<^verbatim>\<open>json.Unmarshal\<close>): a string, a number
  (\<^verbatim>\<open>float64\<close>), an object (\<^verbatim>\<open>map[string]any\<close>, as an association list in the order
  the \<^verbatim>\<open>range\<close> loop visits it), or anything else.
\<close>

datatype json =
    JString string
  | JNumber real
  | JObject "(string \<times> json) list"
  | JOther

text \<open>
  The effects of the library calls the migrator makes, in the order it makes them. The
  log is part of the world, so that the order of the effects can be stated.
  \<open>TrieCommit\<close> is \<^verbatim>\<open>mpt.Commit(true)\<close>, \<open>MergeSet\<close> is
  \<^verbatim>\<open>mergedNodeSet.Merge(set)\<close>, \<open>NodeSetMerge\<close> is \<^verbatim>\<open>mptdb.Update\<close> with the node
  set and \<open>DbCommit\<close> is \<^verbatim>\<open>mptdb.Commit\<close>, each with the root it is called for.
\<close>

datatype event =
    OpenZkIterator hash
  | NewStateTrie hash
  | TrieUpdate hash bytes
  | TrieCommit hash
  | MergeSet hash
  | NodeSetMerge hash
  | DbCommit hash
  | DbGet bytes
  | DbPut bytes bytes
  | Sleep nat
  | Println string
  | RpcBlockNumber
  | RpcTraceBlock u64
  | StateDBCommit hash

datatype rpc_error = NetworkError | BadResponse

datatype error =
    PreimageDoesNotExist hash
  | SecureHashFailed bytes
  | ContractMigrationFailed address hash
  | HashCollisionDetected hash
  | Failed event
  | RpcFailed rpc_error
  | NilDereference
  | TypeAssertionFailed
  | BadBalance
  | BadNonce
  | UnknownDeltaKeys
  | MissingTrieNode hash
  | InvalidAccount
  | HeaderNumberNotFound hash
  | ExtraDataTooLong nat
  | CannotOpenStateDB hash
  | ChainConfigNotFound

text \<open>
  The external collaborators (the spec's section 6), as parameters: the hash functions,
  the decoders of the two trie libraries, the JSON codec of the checkpoint, the scripted
  answers of the source chain's RPC (the \<open>n\<close>-th call of the process gets the \<open>n\<close>-th
  answer), and \<open>fails\<close>, which says of each library call whether it returns an error.
  \<open>MustNewSecureHash\<close> gives the bytes of the secure hash, or \<open>None\<close> where the library
  call panics; \<open>NewTreeNodeFromBlob\<close> says whether the bytes decode as a zkTrie node;
  \<open>jsonUnmarshal\<close> gives whether \<^verbatim>\<open>json.Unmarshal\<close> returned an error and the record
  it left in the pointer, if any.
\<close>

record lib =
  Keccak256Hash :: "bytes \<Rightarrow> hash"
  IteratorKeyToHash :: "bytes \<Rightarrow> hash"
  MustNewSecureHash :: "bytes \<Rightarrow> bytes option"
  NewTreeNodeFromBlob :: "bytes \<Rightarrow> bool"
  NewStateAccount :: "bytes \<Rightarrow> account option"
  EncodeAccount :: "account \<Rightarrow> bytes"
  DecodeAccount :: "bytes \<Rightarrow> account option"
  EmptyRootHash :: hash
  EmptyZkRootHash :: hash
  EmptyUncleHash :: hash
  EmptyCodeHash :: bytes
  KromaProtocolVault :: address
  HeaderHash :: "header \<Rightarrow> hash"
  TrieRoot :: "trie \<Rightarrow> hash"
  NodeIterator :: "trie \<Rightarrow> mptIterNode list"
  jsonMarshal :: "migrationRoot \<Rightarrow> bytes"
  jsonUnmarshal :: "bytes \<Rightarrow> bool \<times> migrationRoot option"
  SetString16 :: "string \<Rightarrow> int option"
  Uint64OfFloat :: "real \<Rightarrow> u64"
  rpc_blockNumber :: "nat \<Rightarrow> rpc_error + u64"
  rpc_traceBlock :: "nat \<Rightarrow> u64 \<Rightarrow> rpc_error + (address \<times> (string \<times> json) list) list"
  fails :: "event \<Rightarrow> bool"

text \<open>
  The world the process acts on: the backing key-value store as the migrator reads and
  writes it directly (\<open>kv\<close>), the source zkTries and the preimage index behind
  \<^verbatim>\<open>zkdb\<close>, the MPTs committed to \<^verbatim>\<open>mptdb\<close>, the chain data behind the \<^verbatim>\<open>rawdb\<close>
  accessors, the number of RPC calls made so far, and the log of effects.
\<close>

record world =
  kv :: "bytes \<rightharpoonup> bytes"
  zkTries :: "hash \<rightharpoonup> zkIterNode list"
  zkPreimages :: "hash \<rightharpoonup> bytes"
  mptTries :: "hash \<rightharpoonup> trie"
  headHeaderHash :: hash
  headBlockHash :: hash
  headFastBlockHash :: hash
  finalizedBlockHash :: hash
  headerNumbers :: "hash \<rightharpoonup> u64"
  headers :: "(u64 \<times> hash) \<rightharpoonup> header"
  bodies :: "(u64 \<times> hash) \<rightharpoonup> block"
  tds :: "(u64 \<times> hash) \<rightharpoonup> nat"
  receipts :: "(u64 \<times> hash) \<rightharpoonup> nat"
  canonical :: "u64 \<rightharpoonup> hash"
  chainConfigs :: "hash \<rightharpoonup> ChainConfig"
  rpcCount :: nat
  trace :: "event list"

text \<open>\<^verbatim>\<open>type migrator struct\<close>: the two genesis maps; the databases are in the world.\<close>

record migrator =
  genesisAccount :: "hash \<rightharpoonup> address"
  genesisStorage :: "hash \<rightharpoonup> bytes"

section \<open>Effects: a state and error monad\<close>

text \<open>
  A computation takes the world and returns an error (a panic, a fatal log or a returned
  \<^verbatim>\<open>error\<close>, all of which end the run) or a value, with the world as it is then.
\<close>

type_synonym 'a io = "world \<Rightarrow> (error + 'a) \<times> world"

definition ok :: "'a \<Rightarrow> 'a io" where
  "ok x = (\<lambda>w. (Inr x, w))"

definition panic :: "error \<Rightarrow> 'a io" where
  "panic e = (\<lambda>w. (Inl e, w))"

definition bindM :: "'a io \<Rightarrow> ('a \<Rightarrow> 'b io) \<Rightarrow> 'b io" where
  "bindM m f = (\<lambda>w. case m w of (Inl e, w') \<Rightarrow> (Inl e, w') | (Inr x, w') \<Rightarrow> f x w')"

text \<open>
  \<^verbatim>\<open>must(err)\<close> around a library call (in \<^verbatim>\<open>state_migrator.go\<close>:
  \<^verbatim>\<open>if err != nil { return ..., err }\<close>): the call either fails, and the error ends the
  run, or it takes effect and is logged.
\<close>

definition must :: "lib \<Rightarrow> event \<Rightarrow> unit io" where
  "must L ev = (\<lambda>w. if fails L ev then (Inl (Failed ev), w)
                     else (Inr (), w\<lparr>trace := trace w @ [ev]\<rparr>))"

text \<open>A \<^verbatim>\<open>for\<close> loop over a list that threads the loop's variable through the body.\<close>

primrec forM :: "'a list \<Rightarrow> ('a \<Rightarrow> 's \<Rightarrow> 's io) \<Rightarrow> 's \<Rightarrow> 's io" where
  "forM [] f s = ok s"
| "forM (x # xs) f s = bindM (f x s) (forM xs f)"

section \<open>The library calls of the migrator\<close>

text \<open>
  \<^verbatim>\<open>m.db.Get(key)\<close>: both callers drop the error (\<^verbatim>\<open>data, _ :=\<close>), so a failed read and
  a missing key both give the empty slice.
\<close>

definition dbGet :: "lib \<Rightarrow> bytes \<Rightarrow> world \<Rightarrow> bytes" where
  "dbGet L key w =
     (if fails L (DbGet key) then []
      else case kv w key of None \<Rightarrow> [] | Some v \<Rightarrow> v)"

text \<open>\<^verbatim>\<open>must(m.db.Put(key, value))\<close>.\<close>

definition dbPut :: "lib \<Rightarrow> bytes \<Rightarrow> bytes \<Rightarrow> unit io" where
  "dbPut L key v =
     bindM (must L (DbPut key v)) (\<lambda>_ w. (Inr (), w\<lparr>kv := (kv w)(key \<mapsto> v)\<rparr>))"

text \<open>\<^verbatim>\<open>m.zkdb.Preimage(keyHash)\<close>: the recorded preimage, empty when there is none.\<close>

definition Preimage :: "world \<Rightarrow> hash \<Rightarrow> bytes" where
  "Preimage w keyHash = (case zkPreimages w keyHash of None \<Rightarrow> [] | Some b \<Rightarrow> b)"

text \<open>
  \<^verbatim>\<open>openZkIterator(root)\<close>: opens the zkTrie at \<open>rootHash\<close> (a panic when the database does
  not have it) and gives the positions its iterator visits.
\<close>

definition openZkIterator :: "lib \<Rightarrow> hash \<Rightarrow> zkIterNode list io" where
  "openZkIterator L rootHash =
     bindM (must L (OpenZkIterator rootHash)) (\<lambda>_ w.
       case zkTries w rootHash of
         None \<Rightarrow> (Inl (MissingTrieNode rootHash), w)
       | Some nodes \<Rightarrow> (Inr nodes, w))"

text \<open>
  \<^verbatim>\<open>m.newMPT(id)\<close>: opens the MPT whose root the id names; the empty root opens the empty
  trie, any other root must have been committed before.
\<close>

definition newMPT :: "lib \<Rightarrow> hash \<Rightarrow> StateTrie io" where
  "newMPT L rootHash =
     bindM (must L (NewStateTrie rootHash)) (\<lambda>_ w.
       if rootHash = EmptyRootHash L then (Inr \<lparr>entries = Map.empty, dirty = False\<rparr>, w)
       else case mptTries w rootHash of
              None \<Rightarrow> (Inl (MissingTrieNode rootHash), w)
            | Some t \<Rightarrow> (Inr \<lparr>entries = t, dirty = False\<rparr>, w))"

text \<open>
  Modelled from the spec: the MPT library's \<^verbatim>\<open>updateStorage(slot, encodedValue)\<close>,
  \<^verbatim>\<open>updateAccount(addr, acct)\<close> and \<^verbatim>\<open>getAccount(addr)\<close> (package \<^verbatim>\<open>trie\<close> is not among
  the source files): the value is stored under the Keccak hash of the key as it is given.
  The trie is changed by an update unless it already holds that value under that key.
\<close>

definition putEntry :: "hash \<Rightarrow> bytes \<Rightarrow> StateTrie \<Rightarrow> StateTrie" where
  "putEntry k v t =
     \<lparr>entries = (entries t)(k \<mapsto> v), dirty = (dirty t \<or> entries t k \<noteq> Some v)\<rparr>"

definition UpdateStorage :: "lib \<Rightarrow> bytes \<Rightarrow> bytes \<Rightarrow> StateTrie \<Rightarrow> StateTrie io" where
  "UpdateStorage L key v t =
     bindM (must L (TrieUpdate (Keccak256Hash L key) v)) (\<lambda>_.
       ok (putEntry (Keccak256Hash L key) v t))"

definition UpdateAccount :: "lib \<Rightarrow> address \<Rightarrow> account \<Rightarrow> StateTrie \<Rightarrow> StateTrie io" where
  "UpdateAccount L addr acc t =
     bindM (must L (TrieUpdate (Keccak256Hash L addr) (EncodeAccount L acc))) (\<lambda>_.
       ok (putEntry (Keccak256Hash L addr) (EncodeAccount L acc) t))"

definition GetAccount :: "lib \<Rightarrow> StateTrie \<Rightarrow> address \<Rightarrow> account option io" where
  "GetAccount L t addr =
     (case entries t (Keccak256Hash L addr) of
        None \<Rightarrow> ok None
      | Some blob \<Rightarrow>
          (case DecodeAccount L blob of
             None \<Rightarrow> panic InvalidAccount
           | Some acc \<Rightarrow> ok (Some acc)))"

definition NewEmptyStateAccount :: "lib \<Rightarrow> account" where
  "NewEmptyStateAccount L =
     \<lparr>Nonce = 0, Balance = 0, Root = EmptyRootHash L, CodeHash = EmptyCodeHash L\<rparr>"

section \<open>The follower program (\<^verbatim>\<open>migrator\<close>)\<close>

text \<open>
  \<^verbatim>\<open>func (m *migrator) commit(mpt) common.Hash\<close>: the trie commit, the merge of its node
  set into the trie database, and the database commit, each under \<^verbatim>\<open>must\<close>.

  Modelled from the spec: \<^verbatim>\<open>commit(collectLeaf=true)\<close> of the MPT library gives the root
  and the node set the commit produced; a trie that was not changed since it was opened
  produces none, and \<^verbatim>\<open>mpt.Commit\<close> returns a \<^verbatim>\<open>nil\<close> set. The source passes the set
  unchecked to \<^verbatim>\<open>trienode.NewWithNodeSet\<close>, which dereferences it: a panic.
\<close>

definition commit :: "lib \<Rightarrow> StateTrie \<Rightarrow> hash io" where
  "commit L mpt =
     (let root = TrieRoot L (entries mpt) in
      bindM (must L (TrieCommit root)) (\<lambda>_.
      if \<not> dirty mpt then panic NilDereference
      else
      bindM (must L (NodeSetMerge root)) (\<lambda>_.
      bindM (\<lambda>w. (Inr (), w\<lparr>mptTries := (mptTries w)(root \<mapsto> entries mpt)\<rparr>)) (\<lambda>_.
      bindM (must L (DbCommit root)) (\<lambda>_.
      ok root)))))"

text \<open>
  \<^verbatim>\<open>func (m *migrator) readPreimage(key []byte) ([]byte, error)\<close>. The two hex strings
  of the source's comparison are equal exactly when the two 32-byte hashes are.
\<close>

definition readPreimage :: "lib \<Rightarrow> migrator \<Rightarrow> world \<Rightarrow> bytes \<Rightarrow> error + bytes" where
  "readPreimage L m w key =
     (let keyHash = IteratorKeyToHash L key in
      case genesisAccount m keyHash of
        Some addr \<Rightarrow> Inr addr
      | None \<Rightarrow>
         (case genesisStorage m keyHash of
            Some slot \<Rightarrow> Inr slot
          | None \<Rightarrow>
             (let preimage = Preimage w keyHash in
              case MustNewSecureHash L preimage of
                None \<Rightarrow> Inl (SecureHashFailed preimage)
              | Some h \<Rightarrow>
                  if BytesToHash h = keyHash then Inr preimage
                  else Inl (PreimageDoesNotExist keyHash))))"

text \<open>
  \<^verbatim>\<open>func (m *stateMigrator) readPreimage(key []byte) []byte\<close> of
  \<^verbatim>\<open>state_migrator.go\<close>: the same lookups; where the other returns an error, this one
  panics with it.
\<close>

definition stateMigrator_readPreimage ::
  "lib \<Rightarrow> migrator \<Rightarrow> world \<Rightarrow> bytes \<Rightarrow> error + bytes" where
  "stateMigrator_readPreimage L m w key =
     (let keyHash = IteratorKeyToHash L key in
      case genesisAccount m keyHash of
        Some addr \<Rightarrow> Inr addr
      | None \<Rightarrow>
         (case genesisStorage m keyHash of
            Some slot \<Rightarrow> Inr slot
          | None \<Rightarrow>
             (let preimage = Preimage w keyHash in
              case MustNewSecureHash L preimage of
                None \<Rightarrow> Inl (SecureHashFailed preimage)
              | Some h \<Rightarrow>
                  if BytesToHash h = keyHash then Inr preimage
                  else Inl (PreimageDoesNotExist keyHash))))"

text \<open>
  \<^verbatim>\<open>func (m *migrator) checkHashCollision(t *trie.StateTrie)\<close>: walks the positions of
  the MPT's node iterator; positions that are not leaves are skipped by the source's
  \<^verbatim>\<open>if !it.Leaf() { continue }\<close>. The positions are those of the entries the trie
  holds, and the definition takes these.
\<close>

definition checkHashCollision :: "lib \<Rightarrow> trie \<Rightarrow> unit io" where
  "checkHashCollision L t =
     forM (NodeIterator L t)
       (\<lambda>it _. if \<not> mptLeaf it then ok ()
               else (\<lambda>w. let data = dbGet L (mptHash it) w in
                          if length data = 0 then (Inr (), w)
                          else if NewTreeNodeFromBlob L data
                               then (Inl (HashCollisionDetected (mptHash it)), w)
                               else (Inr (), w)))
       ()"

text \<open>The address \<^verbatim>\<open>0x4200000000000000000000000000000000000070\<close> of the devnet skip.\<close>

definition devnetSkipAddress :: address where
  "devnetSkipAddress = 0x42 # replicate 18 0 @ [0x70]"

text \<open>\<^verbatim>\<open>func (m *migrator) migrateStorage(address, zkStorageRoot, status) common.Hash\<close>.
  The status counters are observational and left out. \<open>SecureHashFailed\<close> is the panic
  of \<^verbatim>\<open>zk.MustNewSecureHash\<close> inside \<open>readPreimage\<close>: it is not an error that
  \<open>readPreimage\<close> returns, so the devnet skip does not see it.\<close>

definition migrateStorage :: "lib \<Rightarrow> migrator \<Rightarrow> address \<Rightarrow> hash \<Rightarrow> hash io" where
  "migrateStorage L m address zkStorageRoot =
     (if zkStorageRoot = EmptyZkRootHash L then ok (EmptyRootHash L)
      else
        bindM (newMPT L (EmptyRootHash L)) (\<lambda>mpt.
        bindM (openZkIterator L zkStorageRoot) (\<lambda>nodes.
        bindM (forM nodes
                 (\<lambda>it mpt. if \<not> Leaf it then ok mpt
                    else (\<lambda>w. case readPreimage L m w (LeafKey it) of
                            Inl (SecureHashFailed p) \<Rightarrow> (Inl (SecureHashFailed p), w)
                          | Inl err \<Rightarrow>
                              if address = devnetSkipAddress then (Inr mpt, w)
                              else (Inl (ContractMigrationFailed address
                                           (IteratorKeyToHash L (LeafKey it))), w)
                          | Inr slot \<Rightarrow>
                              UpdateStorage L slot (encodeToRlp (LeafBlob it)) mpt w))
                 mpt) (\<lambda>mpt.
        bindM (checkHashCollision L (entries mpt)) (\<lambda>_.
        commit L mpt)))))"

text \<open>
  \<^verbatim>\<open>func (m *stateMigrator) migrateStorage(address, zkStorageRoot, status)
  (common.Hash, error)\<close> of \<^verbatim>\<open>state_migrator.go\<close>: the leaf blob is passed to
  \<^verbatim>\<open>UpdateStorage\<close> as it is, and there is no collision check. The node set of
  \<^verbatim>\<open>mpt.Commit\<close> goes unchecked to \<^verbatim>\<open>mergedNodeSet.Merge\<close>, which dereferences it.
\<close>

definition stateMigrator_migrateStorage ::
  "lib \<Rightarrow> migrator \<Rightarrow> address \<Rightarrow> hash \<Rightarrow> hash io" where
  "stateMigrator_migrateStorage L m address zkStorageRoot =
     (if zkStorageRoot = EmptyZkRootHash L then ok (EmptyRootHash L)
      else
        bindM (newMPT L (EmptyRootHash L)) (\<lambda>mpt.
        bindM (openZkIterator L zkStorageRoot) (\<lambda>nodes.
        bindM (forM nodes
                 (\<lambda>it mpt. if \<not> Leaf it then ok mpt
                    else (\<lambda>w. case stateMigrator_readPreimage L m w (LeafKey it) of
                            Inl err \<Rightarrow> (Inl err, w)
                          | Inr slot \<Rightarrow> UpdateStorage L slot (LeafBlob it) mpt w))
                 mpt) (\<lambda>mpt.
        let storageRoot = TrieRoot L (entries mpt) in
        bindM (must L (TrieCommit storageRoot)) (\<lambda>_.
        if \<not> dirty mpt then panic NilDereference
        else
        bindM (must L (MergeSet storageRoot)) (\<lambda>_.
        bindM (must L (NodeSetMerge storageRoot)) (\<lambda>_.
        bindM (\<lambda>w. (Inr (), w\<lparr>mptTries := (mptTries w)(storageRoot \<mapsto> entries mpt)\<rparr>)) (\<lambda>_.
        bindM (must L (DbCommit storageRoot)) (\<lambda>_.
        ok storageRoot)))))))))"

text \<open>
  \<^verbatim>\<open>func (m *migrator) updateAccount(address, account, nextState, stateRoot)\<close>, one
  definition per \<^verbatim>\<open>if\<close> block of the source. Each block that finds its key deletes it
  from \<open>nextState\<close>; keys that are left at the end are a panic.
\<close>

definition deleteKey :: "string \<Rightarrow> (string \<times> json) list \<Rightarrow> (string \<times> json) list" where
  "deleteKey k nextState = filter (\<lambda>kv. fst kv \<noteq> k) nextState"

definition TrimPrefix0x :: "string \<Rightarrow> string" where
  "TrimPrefix0x s = (if take 2 s = ''0x'' then drop 2 s else s)"

definition updateBalance ::
  "lib \<Rightarrow> account \<Rightarrow> (string \<times> json) list \<Rightarrow> (account \<times> (string \<times> json) list) io" where
  "updateBalance L acc nextState =
     (case map_of nextState ''balance'' of
        None \<Rightarrow> ok (acc, nextState)
      | Some (JString s) \<Rightarrow>
          (case SetString16 L (TrimPrefix0x s) of
             None \<Rightarrow> panic BadBalance
           | Some b \<Rightarrow> ok (acc\<lparr>Balance := b\<rparr>, deleteKey ''balance'' nextState))
      | Some _ \<Rightarrow> panic TypeAssertionFailed)"

definition updateNonce ::
  "lib \<Rightarrow> account \<Rightarrow> (string \<times> json) list \<Rightarrow> (account \<times> (string \<times> json) list) io" where
  "updateNonce L acc nextState =
     (case map_of nextState ''nonce'' of
        None \<Rightarrow> ok (acc, nextState)
      | Some (JNumber f) \<Rightarrow> ok (acc\<lparr>Nonce := Uint64OfFloat L f\<rparr>, deleteKey ''nonce'' nextState)
      | Some _ \<Rightarrow> panic BadNonce)"

definition updateStorageEntry :: "lib \<Rightarrow> string \<times> json \<Rightarrow> StateTrie \<Rightarrow> StateTrie io" where
  "updateStorageEntry L entry mpt =
     (case snd entry of
        JString v \<Rightarrow> UpdateStorage L (HexToHash (fst entry)) (encodeToRlp (bytes_of_string v)) mpt
      | _ \<Rightarrow> panic TypeAssertionFailed)"

definition updateStorage ::
  "lib \<Rightarrow> account \<Rightarrow> (string \<times> json) list \<Rightarrow> (account \<times> (string \<times> json) list) io" where
  "updateStorage L acc nextState =
     (case map_of nextState ''storage'' of
        None \<Rightarrow> ok (acc, nextState)
      | Some storage \<Rightarrow>
          bindM (newMPT L (Root acc)) (\<lambda>mpt.
            case storage of
              JObject slots \<Rightarrow>
                bindM (forM slots (updateStorageEntry L) mpt) (\<lambda>mpt.
                bindM (commit L mpt) (\<lambda>r.
                ok (acc\<lparr>Root := r\<rparr>, deleteKey ''storage'' nextState)))
            | _ \<Rightarrow> panic TypeAssertionFailed))"

definition updateAccount ::
  "lib \<Rightarrow> address \<Rightarrow> account option \<Rightarrow> (string \<times> json) list \<Rightarrow> hash \<Rightarrow> account io" where
  "updateAccount L address account nextState stateRoot =
     (let account = (case account of None \<Rightarrow> NewEmptyStateAccount L | Some a \<Rightarrow> a) in
      bindM (updateBalance L account nextState) (\<lambda>(account, nextState).
      bindM (updateNonce L account nextState) (\<lambda>(account, nextState).
      bindM (updateStorage L account nextState) (\<lambda>(account, nextState).
      if length nextState > 0 then panic UnknownDeltaKeys else ok account))))"

text \<open>
  \<^verbatim>\<open>httpClient.eth_blockNumber\<close> and \<^verbatim>\<open>httpClient.debug_traceBlockByNumber\<close>: every
  step of the HTTP exchange is under \<^verbatim>\<open>must1\<close> / \<^verbatim>\<open>must\<close>, so a failed call is a panic.
  The trace call gives the \<open>(address, state)\<close> pairs in the order the callback gets them.
\<close>

definition eth_blockNumber :: "lib \<Rightarrow> u64 io" where
  "eth_blockNumber L =
     (\<lambda>w. let w' = w\<lparr>rpcCount := rpcCount w + 1, trace := trace w @ [RpcBlockNumber]\<rparr> in
           case rpc_blockNumber L (rpcCount w) of
             Inl e \<Rightarrow> (Inl (RpcFailed e), w')
           | Inr n \<Rightarrow> (Inr n, w'))"

definition debug_traceBlockByNumber ::
  "lib \<Rightarrow> u64 \<Rightarrow> (address \<times> (string \<times> json) list) list io" where
  "debug_traceBlockByNumber L blockNumber =
     (\<lambda>w. let w' = w\<lparr>rpcCount := rpcCount w + 1,
                       trace := trace w @ [RpcTraceBlock blockNumber]\<rparr> in
           case rpc_traceBlock L (rpcCount w) blockNumber of
             Inl e \<Rightarrow> (Inl (RpcFailed e), w')
           | Inr calls \<Rightarrow> (Inr calls, w'))"

text \<open>
  \<^verbatim>\<open>func (m *migrator) applyNewStateTransition(root migrationRoot) *migrationRoot\<close>:
  \<open>None\<close> is the \<^verbatim>\<open>nil\<close> it returns when the cursor is past the head.
\<close>

definition applyNewStateTransition :: "lib \<Rightarrow> migrator \<Rightarrow> migrationRoot \<Rightarrow> migrationRoot option io" where
  "applyNewStateTransition L m rt =
     bindM (eth_blockNumber L) (\<lambda>headBlockNumber.
       if Number rt \<le> headBlockNumber then
         bindM (newMPT L (Hash rt)) (\<lambda>mpt.
         bindM (debug_traceBlockByNumber L (Number rt)) (\<lambda>calls.
         bindM (forM calls
                  (\<lambda>(address, state) mpt.
                     bindM (GetAccount L mpt address) (\<lambda>prior.
                     bindM (updateAccount L address prior state (Hash rt)) (\<lambda>next.
                     UpdateAccount L address next mpt)))
                  mpt) (\<lambda>mpt.
         bindM (commit L mpt) (\<lambda>h.
         ok (Some (rt\<lparr>Hash := h, Number := Number rt + 1\<rparr>))))))
       else ok None)"

text \<open>\<^verbatim>\<open>rawdb.ReadHeadHeader(m.db)\<close>: the header the head-header hash names, if any.\<close>

definition ReadHeadHeader :: "world \<Rightarrow> header option" where
  "ReadHeadHeader w =
     (if headHeaderHash w = replicate 32 0 then None
      else case headerNumbers w (headHeaderHash w) of
             None \<Rightarrow> None
           | Some n \<Rightarrow> headers w (n, headHeaderHash w))"

text \<open>\<^verbatim>\<open>func (m *migrator) migrateAccount() *migrationRoot\<close>.\<close>

definition migrateAccountLeaf :: "lib \<Rightarrow> migrator \<Rightarrow> zkIterNode \<Rightarrow> StateTrie \<Rightarrow> StateTrie io" where
  "migrateAccountLeaf L m it mpt =
     (if \<not> Leaf it then ok mpt
      else (\<lambda>w. case readPreimage L m w (LeafKey it) of
                   Inl err \<Rightarrow> (Inl err, w)
                 | Inr pre \<Rightarrow>
                    (let address = BytesToAddress pre in
                     case NewStateAccount L (LeafBlob it) of
                       None \<Rightarrow> (Inl InvalidAccount, w)
                     | Some acc \<Rightarrow>
                         bindM (migrateStorage L m address (Root acc)) (\<lambda>r.
                           UpdateAccount L address (acc\<lparr>Root := r\<rparr>) mpt) w)))"

definition migrateAccount :: "lib \<Rightarrow> migrator \<Rightarrow> migrationRoot io" where
  "migrateAccount L m =
     (\<lambda>w. case ReadHeadHeader w of
             None \<Rightarrow> (Inl NilDereference, w)
           | Some header \<Rightarrow>
               bindM (newMPT L (EmptyRootHash L)) (\<lambda>mpt.
               bindM (openZkIterator L (HeaderRoot header)) (\<lambda>nodes.
               bindM (forM nodes (migrateAccountLeaf L m) mpt) (\<lambda>mpt.
               bindM (checkHashCollision L (entries mpt)) (\<lambda>_.
               bindM (commit L mpt) (\<lambda>r.
               ok \<lparr>Hash = r, Number = of_nat (HeaderNumber header)\<rparr>))))) w)"

text \<open>
  \<^verbatim>\<open>func (m *migrator) start()\<close>. \<open>readCheckpoint\<close> is the first \<^verbatim>\<open>if\<close> of the source:
  the value under \<^verbatim>\<open>"migration-root"\<close> is read with its error dropped; a non-empty value
  is unmarshalled, and a failure of that is printed and nothing else. \<open>startup\<close> is the
  second \<^verbatim>\<open>if\<close>: with no root the initial migration runs and its root is stored.
  \<open>followerIteration\<close> is the body of the \<^verbatim>\<open>for\<close> loop, \<open>follow\<close> runs it a number of
  times (the loop of the source has no exit), and \<open>start\<close> is the whole.
\<close>

definition migrationRootKey :: bytes where
  "migrationRootKey = bytes_of_string ''migration-root''"

definition readCheckpoint :: "lib \<Rightarrow> migrationRoot option io" where
  "readCheckpoint L =
     (\<lambda>w. let jsonBytes = dbGet L migrationRootKey w in
           if length jsonBytes > 0 then
             (case jsonUnmarshal L jsonBytes of
                (True, r) \<Rightarrow>
                  (Inr r, w\<lparr>trace := trace w @ [Println ''invalid migration-root format'']\<rparr>)
              | (False, r) \<Rightarrow> (Inr r, w))
           else (Inr None, w))"

definition startup :: "lib \<Rightarrow> migrator \<Rightarrow> migrationRoot io" where
  "startup L m =
     bindM (readCheckpoint L) (\<lambda>r.
       case r of
         None \<Rightarrow>
           bindM (migrateAccount L m) (\<lambda>r.
           bindM (dbPut L migrationRootKey (jsonMarshal L r)) (\<lambda>_.
           ok r))
       | Some r \<Rightarrow> ok r)"

definition followerIteration :: "lib \<Rightarrow> migrator \<Rightarrow> migrationRoot \<Rightarrow> migrationRoot io" where
  "followerIteration L m rt =
     bindM (applyNewStateTransition L m rt) (\<lambda>nextRoot.
       case nextRoot of
         None \<Rightarrow> bindM (\<lambda>w. (Inr (), w\<lparr>trace := trace w @ [Sleep 2]\<rparr>)) (\<lambda>_. ok rt)
       | Some nextRoot \<Rightarrow>
           bindM (dbPut L migrationRootKey (jsonMarshal L nextRoot)) (\<lambda>_.
           ok nextRoot))"

primrec follow :: "lib \<Rightarrow> migrator \<Rightarrow> nat \<Rightarrow> migrationRoot \<Rightarrow> migrationRoot io" where
  "follow L m 0 rt = ok rt"
| "follow L m (Suc n) rt = bindM (followerIteration L m rt) (follow L m n)"

definition start :: "lib \<Rightarrow> migrator \<Rightarrow> nat \<Rightarrow> migrationRoot io" where
  "start L m n = bindM (startup L m) (follow L m n)"

section \<open>The sealing program (\<^verbatim>\<open>stateMigrator\<close>)\<close>

text \<open>The package-level variables of \<^verbatim>\<open>state_migrator.go\<close>.\<close>

definition BedrockTransitionBlockExtraData :: bytes where
  "BedrockTransitionBlockExtraData = bytes_of_string ''BEDROCK''"

definition L2GenesisBlockGasLimit :: nat where
  "L2GenesisBlockGasLimit = 0"

definition L2OutputOracleStartingTimestamp :: nat where
  "L2OutputOracleStartingTimestamp = 0"

definition InitialBaseFee :: int where
  "InitialBaseFee = 0"

text \<open>
  Modelled from the spec: the \<^verbatim>\<open>rawdb\<close> accessors and \<^verbatim>\<open>types.NewBlock\<close> (packages
  \<^verbatim>\<open>core/rawdb\<close> and \<^verbatim>\<open>core/types\<close> are not among the source files). Each accessor
  reads or writes its own table of the store: total difficulty, body, header (with the
  hash-to-number index), receipts, canonical hash, the head markers and the chain
  configuration. A block built with no transactions, uncles and receipts has the empty
  hashes in its header.
\<close>

definition NewBlock :: "lib \<Rightarrow> header \<Rightarrow> block" where
  "NewBlock L h =
     \<lparr>blockHeader = h\<lparr>TxHash := EmptyRootHash L, ReceiptHash := EmptyRootHash L,
                       UncleHash := EmptyUncleHash L\<rparr>,
      blockTxs = 0, blockUncles = 0\<rparr>"

definition BlockHash :: "lib \<Rightarrow> block \<Rightarrow> hash" where
  "BlockHash L b = HeaderHash L (blockHeader b)"

definition NumberU64 :: "block \<Rightarrow> u64" where
  "NumberU64 b = of_nat (HeaderNumber (blockHeader b))"

definition WriteTd :: "hash \<Rightarrow> u64 \<Rightarrow> nat \<Rightarrow> world \<Rightarrow> world" where
  "WriteTd h n td w = w\<lparr>tds := (tds w)((n, h) \<mapsto> td)\<rparr>"

definition WriteHeader :: "lib \<Rightarrow> header \<Rightarrow> world \<Rightarrow> world" where
  "WriteHeader L hdr w =
     w\<lparr>headerNumbers := (headerNumbers w)(HeaderHash L hdr \<mapsto> of_nat (HeaderNumber hdr)),
       headers := (headers w)((of_nat (HeaderNumber hdr), HeaderHash L hdr) \<mapsto> hdr)\<rparr>"

definition WriteBlock :: "lib \<Rightarrow> block \<Rightarrow> world \<Rightarrow> world" where
  "WriteBlock L b w =
     WriteHeader L (blockHeader b) (w\<lparr>bodies := (bodies w)((NumberU64 b, BlockHash L b) \<mapsto> b)\<rparr>)"

definition WriteReceipts :: "hash \<Rightarrow> u64 \<Rightarrow> nat \<Rightarrow> world \<Rightarrow> world" where
  "WriteReceipts h n rs w = w\<lparr>receipts := (receipts w)((n, h) \<mapsto> rs)\<rparr>"

definition WriteCanonicalHash :: "hash \<Rightarrow> u64 \<Rightarrow> world \<Rightarrow> world" where
  "WriteCanonicalHash h n w = w\<lparr>canonical := (canonical w)(n \<mapsto> h)\<rparr>"

definition WriteHeadBlockHash :: "hash \<Rightarrow> world \<Rightarrow> world" where
  "WriteHeadBlockHash h w = w\<lparr>headBlockHash := h\<rparr>"

definition WriteHeadFastBlockHash :: "hash \<Rightarrow> world \<Rightarrow> world" where
  "WriteHeadFastBlockHash h w = w\<lparr>headFastBlockHash := h\<rparr>"

definition WriteHeadHeaderHash :: "hash \<Rightarrow> world \<Rightarrow> world" where
  "WriteHeadHeaderHash h w = w\<lparr>headHeaderHash := h\<rparr>"

definition WriteFinalizedBlockHash :: "hash \<Rightarrow> world \<Rightarrow> world" where
  "WriteFinalizedBlockHash h w = w\<lparr>finalizedBlockHash := h\<rparr>"

definition ReadCanonicalHash :: "world \<Rightarrow> u64 \<Rightarrow> hash" where
  "ReadCanonicalHash w n = (case canonical w n of None \<Rightarrow> replicate 32 0 | Some h \<Rightarrow> h)"

definition WriteChainConfig :: "hash \<Rightarrow> ChainConfig \<Rightarrow> world \<Rightarrow> world" where
  "WriteChainConfig h cfg w = w\<lparr>chainConfigs := (chainConfigs w)(h \<mapsto> cfg)\<rparr>"

text \<open>
  The \<^verbatim>\<open>dbFactory\<close> closure of the source (\<^verbatim>\<open>state.New(stateRoot, ...)\<close>): the state can
  be opened at the empty root or at the root of a committed MPT.
\<close>

definition dbFactory :: "lib \<Rightarrow> hash \<Rightarrow> unit io" where
  "dbFactory L stateRoot =
     (\<lambda>w. if stateRoot = EmptyRootHash L \<or> mptTries w stateRoot \<noteq> None then (Inr (), w)
           else (Inl (CannotOpenStateDB stateRoot), w))"

text \<open>
  The header of the transition block, the \<^verbatim>\<open>bedrockHeader\<close> literal of the source, from
  the head header, its hash and the committed state root.
\<close>

definition bedrockHeader :: "lib \<Rightarrow> header \<Rightarrow> hash \<Rightarrow> header" where
  "bedrockHeader L hdr newRoot =
     \<lparr>ParentHash = HeaderHash L hdr,
      UncleHash = EmptyUncleHash L,
      Coinbase = KromaProtocolVault L,
      HeaderRoot = newRoot,
      TxHash = EmptyRootHash L,
      ReceiptHash = EmptyRootHash L,
      Bloom = replicate 256 0,
      Difficulty = 0,
      HeaderNumber = HeaderNumber hdr + 1,
      GasLimit = of_nat L2GenesisBlockGasLimit,
      GasUsed = 0,
      Time = of_nat L2OutputOracleStartingTimestamp,
      Extra = BedrockTransitionBlockExtraData,
      MixDigest = replicate 32 0,
      HeaderNonce = replicate 8 0,
      BaseFee = InitialBaseFee\<rparr>"

text \<open>The writes of the transition block, in the order of the source.\<close>

definition writeBedrockBlock :: "lib \<Rightarrow> block \<Rightarrow> world \<Rightarrow> world" where
  "writeBedrockBlock L b w =
     (let w1 = WriteTd (BlockHash L b) (NumberU64 b) (Difficulty (blockHeader b)) w;
          w2 = WriteBlock L b w1;
          w3 = WriteReceipts (BlockHash L b) (NumberU64 b) 0 w2;
          w4 = WriteCanonicalHash (BlockHash L b) (NumberU64 b) w3;
          w5 = WriteHeadBlockHash (BlockHash L b) w4;
          w6 = WriteHeadFastBlockHash (BlockHash L b) w5;
          w7 = WriteHeadHeaderHash (BlockHash L b) w6;
          w8 = WriteFinalizedBlockHash (BlockHash L b) w7
      in w8)"

text \<open>The rewrite of the chain configuration; \<^verbatim>\<open>cfg.Kroma\<close> is dereferenced by it.\<close>

definition rewriteChainConfig :: "block \<Rightarrow> ChainConfig \<Rightarrow> KromaConfig \<Rightarrow> ChainConfig" where
  "rewriteChainConfig b cfg k =
     cfg\<lparr>LondonBlock := Some (HeaderNumber (blockHeader b)),
         ArrowGlacierBlock := Some (HeaderNumber (blockHeader b)),
         GrayGlacierBlock := Some (HeaderNumber (blockHeader b)),
         MergeNetsplitBlock := Some (HeaderNumber (blockHeader b)),
         TerminalTotalDifficulty := Some 0,
         TerminalTotalDifficultyPassed := True,
         BedrockBlock := Some (HeaderNumber (blockHeader b)),
         RegolithTime := Some 0,
         Optimism := Some \<lparr>EIP1559Elasticity = KromaEIP1559Elasticity k,
                            EIP1559Denominator = KromaEIP1559Denominator k,
                            EIP1559DenominatorCanyon = KromaEIP1559DenominatorCanyon k\<rparr>\<rparr>"

definition updateChainConfig :: "block \<Rightarrow> unit io" where
  "updateChainConfig b =
     (\<lambda>w. let genesisHash = ReadCanonicalHash w 0 in
           case chainConfigs w genesisHash of
             None \<Rightarrow> (Inl ChainConfigNotFound, w)
           | Some cfg \<Rightarrow>
               (case Kroma cfg of
                  None \<Rightarrow> (Inl NilDereference, w)
                | Some k \<Rightarrow> (Inr (), WriteChainConfig genesisHash (rewriteChainConfig b cfg k) w)))"

text \<open>
  \<^verbatim>\<open>func (m *stateMigrator) migrateHeadAndGenesis(stateRoot)\<close>, which returns a
  \<^verbatim>\<open>MigrationResult\<close> or an error.
  The log lines are left out. \<^verbatim>\<open>db.Commit(0, true)\<close> on a state that was only opened
  gives back the root it was opened at.
\<close>

definition migrateHeadAndGenesis :: "lib \<Rightarrow> hash \<Rightarrow> MigrationResult io" where
  "migrateHeadAndGenesis L stateRoot =
     (\<lambda>w. let hash = headHeaderHash w in
           case headerNumbers w hash of
             None \<Rightarrow> (Inl (HeaderNumberNotFound hash), w)
           | Some num \<Rightarrow>
              if length BedrockTransitionBlockExtraData > 32
              then (Inl (ExtraDataTooLong (length BedrockTransitionBlockExtraData)), w)
              else
               (case headers w (num, hash) of
                  None \<Rightarrow> (Inl NilDereference, w)
                | Some hdr \<Rightarrow>
                   if Extra hdr = BedrockTransitionBlockExtraData
                   then (Inr \<lparr>TransitionHeight = num, TransitionTimestamp = Time hdr,
                              TransitionBlockHash = hash\<rparr>, w)
                   else
                    bindM (dbFactory L stateRoot) (\<lambda>_.
                    bindM (must L (StateDBCommit stateRoot)) (\<lambda>_.
                      let newRoot = stateRoot;
                          bedrockBlock = NewBlock L (bedrockHeader L hdr newRoot);
                          res = \<lparr>TransitionHeight = NumberU64 bedrockBlock,
                                 TransitionTimestamp = Time (blockHeader bedrockBlock),
                                 TransitionBlockHash = BlockHash L bedrockBlock\<rparr>
                      in
                      bindM (must L (DbCommit newRoot)) (\<lambda>_.
                      bindM (\<lambda>w. (Inr (), writeBedrockBlock L bedrockBlock w)) (\<lambda>_.
                      bindM (updateChainConfig bedrockBlock) (\<lambda>_.
                      ok res))))) w))"

section \<open>Auxiliary notions for the proofs\<close>

text \<open>
  A list of effects that holds no write to the key-value store and no sleep, and a
  computation that, whatever it returns, leaves the key-value store as it was and only
  appends such effects to the log.
\<close>

definition silent :: "event list \<Rightarrow> bool" where
  "silent evs = ((\<forall>k v. DbPut k v \<notin> set evs) \<and> (\<forall>n. Sleep n \<notin> set evs))"

definition quiet :: "'a io \<Rightarrow> bool" where
  "quiet f = (\<forall>w. kv (snd (f w)) = kv w
                \<and> (\<exists>evs. trace (snd (f w)) = trace w @ evs \<and> silent evs))"

text \<open>
  The world after the writes of the transition block and of the rewritten chain
  configuration.
\<close>

definition sealedWorld :: "lib \<Rightarrow> block \<Rightarrow> hash \<Rightarrow> ChainConfig \<Rightarrow> world \<Rightarrow> world" where
  "sealedWorld L b g cfg w = WriteChainConfig g cfg (writeBedrockBlock L b w)"

section \<open>A concrete instance\<close>

text \<open>
  Small stand-ins for the external collaborators and a small world, on which the
  definitions can be run: a head block 5 with difficulty 7 and no sentinel, an account
  zkTrie with one leaf (an account without storage) at its root, a storage zkTrie with
  one leaf, a source chain whose head is
  block 9 and whose block 5 changes the nonce and one storage slot of one account.
  The variants change one collaborator or one key of the store each.
\<close>

definition exampleValueHex :: string where
  "exampleValueHex = ''0x000000000000000000000000000000000000000000000000000000000000feed''"

definition exampleHead :: header where
  "exampleHead =
     \<lparr>ParentHash = [0x48, 4], UncleHash = [0x1D], Coinbase = [0x42], HeaderRoot = [0x5A, 1],
      TxHash = [0x56], ReceiptHash = [0x56], Bloom = [], Difficulty = 7, HeaderNumber = 5,
      GasLimit = 30000000, GasUsed = 0, Time = 1700000000, Extra = [], MixDigest = [],
      HeaderNonce = [], BaseFee = 1\<rparr>"

definition exampleLib :: lib where
  "exampleLib =
     \<lparr>Keccak256Hash = (\<lambda>b. 0x4B # b),
      IteratorKeyToHash = BytesToHash,
      MustNewSecureHash = (\<lambda>b. if length b > 32 then None else Some (0x5A # b)),
      NewTreeNodeFromBlob = (\<lambda>b. take 1 b = [4]),
      NewStateAccount = (\<lambda>b. if b = [] then None
                              else Some \<lparr>Nonce = 0, Balance = 0, Root = [0], CodeHash = [0xC5]\<rparr>),
      EncodeAccount = (\<lambda>a. Root a),
      DecodeAccount = (\<lambda>b. Some \<lparr>Nonce = 0, Balance = 0, Root = b, CodeHash = [0xC5]\<rparr>),
      EmptyRootHash = [0x56],
      EmptyZkRootHash = [0],
      EmptyUncleHash = [0x1D],
      EmptyCodeHash = [0xC5],
      KromaProtocolVault = [0x42],
      HeaderHash = (\<lambda>h. [0x48, of_nat (HeaderNumber h)]),
      TrieRoot = (\<lambda>t. if t = Map.empty then [0x56] else [0x52]),
      NodeIterator = (\<lambda>t. []),
      jsonMarshal = (\<lambda>r. 0x7B # ucast (Number r) # Hash r),
      jsonUnmarshal = (\<lambda>b. case b of
                            x # n # h \<Rightarrow> if x = 0x7B then (False, Some \<lparr>Hash = h, Number = ucast n\<rparr>)
                                        else (True, None)
                          | _ \<Rightarrow> (True, None)),
      SetString16 = (\<lambda>s. None),
      Uint64OfFloat = (\<lambda>f. of_nat (nat \<lfloor>f\<rfloor>)),
      rpc_blockNumber = (\<lambda>n. Inr 9),
      rpc_traceBlock = (\<lambda>n b. if b = 5
          then Inr [([0xBB], [(''nonce'', JNumber 5),
                              (''storage'', JObject [(''0x01'', JString exampleValueHex)])])]
          else Inr []),
      fails = (\<lambda>ev. False)\<rparr>"

definition exampleWorld :: world where
  "exampleWorld =
     \<lparr>kv = Map.empty,
      zkTries = [[0x5A, 1] \<mapsto> [\<lparr>Leaf = False, LeafKey = [], LeafBlob = []\<rparr>,
                                \<lparr>Leaf = True, LeafKey = [0xAA], LeafBlob = [1]\<rparr>],
                 [0x5A, 2] \<mapsto> [\<lparr>Leaf = False, LeafKey = [], LeafBlob = []\<rparr>,
                                \<lparr>Leaf = True, LeafKey = [7],
                                 LeafBlob = replicate 30 0 @ [0xBE, 0xEF]\<rparr>]],
      zkPreimages = [BytesToHash [0x5A, 1, 2] \<mapsto> [1, 2], BytesToHash [8] \<mapsto> [3]],
      mptTries = Map.empty,
      headHeaderHash = [0x48, 5],
      headBlockHash = [0x48, 5],
      headFastBlockHash = [0x48, 5],
      finalizedBlockHash = [0x48, 5],
      headerNumbers = [[0x48, 5] \<mapsto> 5],
      headers = [(5, [0x48, 5]) \<mapsto> exampleHead],
      bodies = Map.empty,
      tds = Map.empty,
      receipts = Map.empty,
      canonical = [0 \<mapsto> [0x48, 0]],
      chainConfigs = [[0x48, 0] \<mapsto>
         \<lparr>LondonBlock = None, ArrowGlacierBlock = None, GrayGlacierBlock = None,
          MergeNetsplitBlock = None, TerminalTotalDifficulty = None,
          TerminalTotalDifficultyPassed = False, BedrockBlock = None, RegolithTime = None,
          Optimism = None,
          Kroma = Some \<lparr>KromaEIP1559Elasticity = 6, KromaEIP1559Denominator = 50,
                         KromaEIP1559DenominatorCanyon = 250\<rparr>\<rparr>],
      rpcCount = 0,
      trace = []\<rparr>"

definition exampleMigrator :: migrator where
  "exampleMigrator =
     \<lparr>genesisAccount = [BytesToHash [0xAA] \<mapsto> [0xAA]],
      genesisStorage = [BytesToHash [7] \<mapsto> [2]]\<rparr>"

definition exampleRoot :: migrationRoot where
  "exampleRoot = \<lparr>Hash = [0x56], Number = 5\<rparr>"

definition collidingLib :: lib where
  "collidingLib =
     exampleLib\<lparr>NodeIterator := (\<lambda>t. [\<lparr>mptLeaf = False, mptHash = [0x52]\<rparr>,
                                      \<lparr>mptLeaf = True, mptHash = replicate 32 0\<rparr>])\<rparr>"

definition leafOnlyLib :: lib where
  "leafOnlyLib = exampleLib\<lparr>NodeIterator := (\<lambda>t. [\<lparr>mptLeaf = True, mptHash = [0x52]\<rparr>])\<rparr>"

definition collidingWorld :: world where
  "collidingWorld = exampleWorld\<lparr>kv := [[0x52] \<mapsto> [4, 1, 2]]\<rparr>"

definition offlineLib :: lib where
  "offlineLib = exampleLib\<lparr>rpc_blockNumber := (\<lambda>n. Inl NetworkError)\<rparr>"

definition traceOfflineLib :: lib where
  "traceOfflineLib = exampleLib\<lparr>rpc_traceBlock := (\<lambda>n b. Inl NetworkError)\<rparr>"

definition garbageWorld :: world where
  "garbageWorld = exampleWorld\<lparr>kv := [migrationRootKey \<mapsto> [1, 2, 3]]\<rparr>"

definition resumeWorld :: world where
  "resumeWorld = exampleWorld\<lparr>kv := [migrationRootKey \<mapsto> [0x7B, 6, 0x52]]\<rparr>"

section \<open>Properties of the value encoding\<close>

lemma length_BytesToHash: "length (BytesToHash b) = 32"
  by (simp add: BytesToHash_def HashLength_def Let_def)

lemma BytesToHash_last32:
  "BytesToHash b = replicate (32 - length b) 0 @ last32 b"
  by (simp add: BytesToHash_def HashLength_def Let_def last32_def)

lemma TrimLeftZeroes_replicate:
  "TrimLeftZeroes (replicate n 0 @ b) = TrimLeftZeroes b"
  by (induction n) (simp_all add: TrimLeftZeroes_def)

lemma encodeToRlp_last32: "encodeToRlp b = rlp_EncodeToBytes (TrimLeftZeroes (last32 b))"
  by (simp add: encodeToRlp_def BytesToHash_last32 TrimLeftZeroes_replicate)

lemma encodeToRlp_short:
  "length b \<le> 32 \<Longrightarrow> encodeToRlp b = rlp_EncodeToBytes (TrimLeftZeroes b)"
  by (simp add: encodeToRlp_last32 last32_def)

text \<open>
  C10. \<open>encodeToRlp\<close> first normalises its argument to a 32-byte word: a shorter input is
  left-padded with zero bytes, of a longer one only the last 32 bytes are kept; the
  word's leading zeros are stripped and the rest is RLP-encoded. Hence the result is a
  function of the last 32 bytes of the input: two inputs with the same last 32 bytes
  have the same encoding.
\<close>

theorem encodeToRlp_normalises:
  "length (BytesToHash b) = 32
   \<and> BytesToHash b = replicate (32 - length b) 0 @ drop (length b - 32) b
   \<and> encodeToRlp b = rlp_EncodeToBytes (TrimLeftZeroes (BytesToHash b))
   \<and> encodeToRlp b = encodeToRlp (last32 b)
   \<and> (last32 b = last32 c \<longrightarrow> encodeToRlp b = encodeToRlp c)"
proof -
  have pad: "BytesToHash b = replicate (32 - length b) 0 @ drop (length b - 32) b"
    using BytesToHash_last32 [of b] by (simp add: last32_def)
  have unfold: "encodeToRlp b = rlp_EncodeToBytes (TrimLeftZeroes (BytesToHash b))"
    by (simp add: encodeToRlp_def)
  have idem: "last32 (last32 b) = last32 b"
    by (simp add: last32_def)
  have self: "encodeToRlp b = encodeToRlp (last32 b)"
    by (simp add: encodeToRlp_last32 idem)
  have dep: "last32 b = last32 c \<longrightarrow> encodeToRlp b = encodeToRlp c"
    by (simp add: encodeToRlp_last32)
  from length_BytesToHash pad unfold self dep show ?thesis by blast
qed

theorem encodeToRlp_normalises_witness:
  "last32 (7 # replicate 32 1) = last32 (9 # replicate 32 1)
   \<and> encodeToRlp (7 # replicate 32 1) = encodeToRlp (9 # replicate 32 1)"
proof -
  have h: "last32 (7 # replicate 32 1) = last32 (9 # replicate 32 1)"
    by (simp add: last32_def)
  with encodeToRlp_normalises [of "7 # replicate 32 1" "9 # replicate 32 1"] show ?thesis
    by blast
qed

section \<open>Unfolding rules for running the definitions\<close>

lemmas io_defs = ok_def panic_def bindM_def must_def dbPut_def dbGet_def newMPT_def openZkIterator_def
  commit_def putEntry_def Let_def
lemmas ex_defs = exampleLib_def exampleWorld_def exampleMigrator_def exampleRoot_def exampleHead_def
lemmas delta_defs = GetAccount_def updateAccount_def updateBalance_def updateNonce_def
  updateStorage_def updateStorageEntry_def UpdateStorage_def UpdateAccount_def
  NewEmptyStateAccount_def deleteKey_def
lemmas seal_defs = migrateHeadAndGenesis_def dbFactory_def
    BedrockTransitionBlockExtraData_def bytes_of_string_def updateChainConfig_def
    writeBedrockBlock_def NewBlock_def bedrockHeader_def WriteTd_def WriteBlock_def WriteHeader_def
    WriteReceipts_def WriteCanonicalHash_def WriteHeadBlockHash_def WriteHeadFastBlockHash_def
    WriteHeadHeaderHash_def WriteFinalizedBlockHash_def ReadCanonicalHash_def WriteChainConfig_def
    BlockHash_def NumberU64_def rewriteChainConfig_def L2OutputOracleStartingTimestamp_def
    L2GenesisBlockGasLimit_def InitialBaseFee_def

lemmas follow_defs = followerIteration_def applyNewStateTransition_def eth_blockNumber_def
     debug_traceBlockByNumber_def migrationRootKey_def

section \<open>The empty storage root\<close>

text \<open>
  C9. For every address, \<open>migrateStorage\<close> on the empty zkTrie root returns the empty
  MPT root at once, in both programs: the world is returned as it was, and with it the
  log of effects, so no storage iterator was opened, no trie was opened and nothing was
  committed.
\<close>

theorem migrateStorage_empty_root:
  "migrateStorage L m address (EmptyZkRootHash L) w = (Inr (EmptyRootHash L), w)
   \<and> stateMigrator_migrateStorage L m address (EmptyZkRootHash L) w
       = (Inr (EmptyRootHash L), w)"
  by (simp add: migrateStorage_def stateMigrator_migrateStorage_def ok_def)

section \<open>The preimage oracle\<close>

text \<open>
  C2. \<open>readPreimage\<close> returns bytes in exactly three cases, tried in this order: the
  genesis-address map has the key hash; it has not and the genesis-storage map has it;
  neither has it, the bytes are those of the preimage index and their recomputed secure
  hash is the key hash. When neither map has the key hash and the recomputed hash of the
  indexed bytes differs from it, the result is the error ``preimage does not exist'', not
  the bytes. The \<^verbatim>\<open>stateMigrator\<close> version makes the same lookups and panics with that
  error.
\<close>

theorem readPreimage_lookup_order:
  "(readPreimage L m w key = Inr b \<longleftrightarrow>
       genesisAccount m (IteratorKeyToHash L key) = Some b
     \<or> (genesisAccount m (IteratorKeyToHash L key) = None
        \<and> genesisStorage m (IteratorKeyToHash L key) = Some b)
     \<or> (genesisAccount m (IteratorKeyToHash L key) = None
        \<and> genesisStorage m (IteratorKeyToHash L key) = None
        \<and> b = Preimage w (IteratorKeyToHash L key)
        \<and> (\<exists>h. MustNewSecureHash L b = Some h \<and> BytesToHash h = IteratorKeyToHash L key)))
   \<and> (genesisAccount m (IteratorKeyToHash L key) = None
      \<and> genesisStorage m (IteratorKeyToHash L key) = None
      \<and> MustNewSecureHash L (Preimage w (IteratorKeyToHash L key)) = Some h'
      \<and> BytesToHash h' \<noteq> IteratorKeyToHash L key
      \<longrightarrow> readPreimage L m w key = Inl (PreimageDoesNotExist (IteratorKeyToHash L key)))
   \<and> stateMigrator_readPreimage L m w key = readPreimage L m w key"
proof (intro conjI)
  show "readPreimage L m w key = Inr b \<longleftrightarrow>
       genesisAccount m (IteratorKeyToHash L key) = Some b
     \<or> (genesisAccount m (IteratorKeyToHash L key) = None
        \<and> genesisStorage m (IteratorKeyToHash L key) = Some b)
     \<or> (genesisAccount m (IteratorKeyToHash L key) = None
        \<and> genesisStorage m (IteratorKeyToHash L key) = None
        \<and> b = Preimage w (IteratorKeyToHash L key)
        \<and> (\<exists>h. MustNewSecureHash L b = Some h \<and> BytesToHash h = IteratorKeyToHash L key))"
    by (auto simp: readPreimage_def Let_def split: option.splits)
  show "genesisAccount m (IteratorKeyToHash L key) = None
      \<and> genesisStorage m (IteratorKeyToHash L key) = None
      \<and> MustNewSecureHash L (Preimage w (IteratorKeyToHash L key)) = Some h'
      \<and> BytesToHash h' \<noteq> IteratorKeyToHash L key
      \<longrightarrow> readPreimage L m w key = Inl (PreimageDoesNotExist (IteratorKeyToHash L key))"
    by (simp add: readPreimage_def Let_def)
  show "stateMigrator_readPreimage L m w key = readPreimage L m w key"
    by (simp add: readPreimage_def stateMigrator_readPreimage_def)
qed

theorem readPreimage_lookup_order_witness:
  "readPreimage exampleLib exampleMigrator exampleWorld [0xAA] = Inr [0xAA]
   \<and> readPreimage exampleLib exampleMigrator exampleWorld [7] = Inr [2]
   \<and> readPreimage exampleLib exampleMigrator exampleWorld [0x5A, 1, 2] = Inr [1, 2]
   \<and> Preimage exampleWorld (BytesToHash [8]) = [3]
   \<and> readPreimage exampleLib exampleMigrator exampleWorld [8]
       = Inl (PreimageDoesNotExist (BytesToHash [8]))
   \<and> stateMigrator_readPreimage exampleLib exampleMigrator exampleWorld [8]
       = Inl (PreimageDoesNotExist (BytesToHash [8]))"
proof -
  have ga: "genesisAccount exampleMigrator (IteratorKeyToHash exampleLib [0xAA]) = Some [0xAA]"
    by (simp add: ex_defs)
  have gs: "genesisAccount exampleMigrator (IteratorKeyToHash exampleLib [7]) = None
          \<and> genesisStorage exampleMigrator (IteratorKeyToHash exampleLib [7]) = Some [2]"
    by (simp add: ex_defs BytesToHash_def HashLength_def)
  have pi: "genesisAccount exampleMigrator (IteratorKeyToHash exampleLib [0x5A, 1, 2]) = None
          \<and> genesisStorage exampleMigrator (IteratorKeyToHash exampleLib [0x5A, 1, 2]) = None
          \<and> [1, 2] = Preimage exampleWorld (IteratorKeyToHash exampleLib [0x5A, 1, 2])
          \<and> MustNewSecureHash exampleLib [1, 2] = Some [0x5A, 1, 2]"
    by (simp add: ex_defs BytesToHash_def HashLength_def Preimage_def)
  have mi: "genesisAccount exampleMigrator (IteratorKeyToHash exampleLib [8]) = None
          \<and> genesisStorage exampleMigrator (IteratorKeyToHash exampleLib [8]) = None
          \<and> MustNewSecureHash exampleLib (Preimage exampleWorld (IteratorKeyToHash exampleLib [8]))
              = Some [0x5A, 3]
          \<and> BytesToHash [0x5A, 3] \<noteq> IteratorKeyToHash exampleLib [8]"
    by (simp add: ex_defs BytesToHash_def HashLength_def Preimage_def)
  have kh: "IteratorKeyToHash exampleLib = BytesToHash"
    by (simp add: ex_defs)
  have p8: "Preimage exampleWorld (BytesToHash [8]) = [3]"
    by (simp add: ex_defs BytesToHash_def HashLength_def Preimage_def)
  note t = readPreimage_lookup_order [of exampleLib exampleMigrator exampleWorld]
  from t [of "[0xAA]" "[0xAA]"] ga
  have 1: "readPreimage exampleLib exampleMigrator exampleWorld [0xAA] = Inr [0xAA]" by blast
  from t [of "[7]" "[2]"] gs
  have 2: "readPreimage exampleLib exampleMigrator exampleWorld [7] = Inr [2]" by blast
  from t [of "[0x5A, 1, 2]" "[1, 2]"] pi
  have 3: "readPreimage exampleLib exampleMigrator exampleWorld [0x5A, 1, 2] = Inr [1, 2]"
    unfolding kh by blast
  from t [of "[8]" _ "[0x5A, 3]"] mi
  have 4: "readPreimage exampleLib exampleMigrator exampleWorld [8]
             = Inl (PreimageDoesNotExist (BytesToHash [8]))
           \<and> stateMigrator_readPreimage exampleLib exampleMigrator exampleWorld [8]
             = Inl (PreimageDoesNotExist (BytesToHash [8]))"
    unfolding kh by simp
  from 1 2 3 4 p8 show ?thesis by simp
qed

section \<open>What the follower's operations do to the store and the log\<close>

lemma silent_Nil: "silent []"
  by (simp add: silent_def)

lemma silent_append: "silent (xs @ ys) = (silent xs \<and> silent ys)"
  by (auto simp: silent_def)

lemma quietI:
  assumes "\<And>w. kv (snd (f w)) = kv w"
    and "\<And>w. \<exists>evs. trace (snd (f w)) = trace w @ evs \<and> silent evs"
  shows "quiet f"
  using assms by (simp add: quiet_def)

lemma quiet_ok: "quiet (ok x)"
  by (rule quietI) (simp_all add: ok_def silent_Nil)

lemma quiet_panic: "quiet (panic e)"
  by (rule quietI) (simp_all add: panic_def silent_Nil)

lemma quiet_pure: "quiet (\<lambda>w. (r w, w))"
  by (rule quietI) (simp_all add: silent_Nil)

lemma quiet_if: "quiet a \<Longrightarrow> quiet b \<Longrightarrow> quiet (if c then a else b)"
  by simp

lemma quiet_must:
  "(\<And>k v. ev \<noteq> DbPut k v) \<Longrightarrow> (\<And>n. ev \<noteq> Sleep n) \<Longrightarrow> quiet (must L ev)"
  by (rule quietI) (auto simp: must_def silent_def)

lemma quiet_bindM:
  assumes m: "quiet m" and f: "\<And>x. quiet (f x)"
  shows "quiet (bindM m f)"
proof (rule quietI)
  fix w
  obtain r w1 where mw: "m w = (r, w1)" by (cases "m w")
  from m mw obtain e1 where k1: "kv w1 = kv w" and t1: "trace w1 = trace w @ e1" and n1: "silent e1"
    by (auto simp: quiet_def dest: spec [where x = w])
  show "kv (snd (bindM m f w)) = kv w"
  proof (cases r)
    case (Inl e)
    with mw k1 show ?thesis by (simp add: bindM_def)
  next
    case (Inr x)
    from f [of x] have "kv (snd (f x w1)) = kv w1" by (simp add: quiet_def)
    with Inr mw k1 show ?thesis by (simp add: bindM_def)
  qed
  show "\<exists>evs. trace (snd (bindM m f w)) = trace w @ evs \<and> silent evs"
  proof (cases r)
    case (Inl e)
    with mw t1 n1 show ?thesis by (auto simp: bindM_def)
  next
    case (Inr x)
    from f [of x] obtain e2 where "trace (snd (f x w1)) = trace w1 @ e2" and "silent e2"
      by (auto simp: quiet_def dest: spec [where x = w1])
    with Inr mw t1 n1 have "trace (snd (bindM m f w)) = trace w @ (e1 @ e2) \<and> silent (e1 @ e2)"
      by (simp add: bindM_def silent_append)
    then show ?thesis by blast
  qed
qed

lemma quiet_forM: "(\<And>x s. quiet (f x s)) \<Longrightarrow> quiet (forM xs f s)"
  by (induction xs arbitrary: s) (simp_all add: quiet_ok quiet_bindM)

lemma quiet_newMPT: "quiet (newMPT L r)"
  unfolding newMPT_def
proof (rule quiet_bindM)
  show "quiet (must L (NewStateTrie r))"
    by (rule quiet_must) simp_all
  show "quiet (\<lambda>w. if r = EmptyRootHash L then (Inr \<lparr>entries = Map.empty, dirty = False\<rparr>, w)
               else case mptTries w r of None \<Rightarrow> (Inl (MissingTrieNode r), w)
                    | Some t \<Rightarrow> (Inr \<lparr>entries = t, dirty = False\<rparr>, w))" for x :: unit
    by (rule quietI) (auto simp: silent_Nil split: option.split)
qed

lemma quiet_UpdateStorage: "quiet (UpdateStorage L k v t)"
  unfolding UpdateStorage_def
  by (rule quiet_bindM, rule quiet_must, simp, simp, rule quiet_ok)

lemma quiet_UpdateAccount: "quiet (UpdateAccount L a acc t)"
  unfolding UpdateAccount_def
  by (rule quiet_bindM, rule quiet_must, simp, simp, rule quiet_ok)

lemma quiet_GetAccount: "quiet (GetAccount L t a)"
  by (simp add: GetAccount_def quiet_ok quiet_panic split: option.split)

lemma quiet_setTrie: "quiet (\<lambda>w. (Inr (), w\<lparr>mptTries := g w\<rparr>))"
  by (rule quietI) (simp_all add: silent_Nil)

lemma quiet_commit: "quiet (commit L mpt)"
  unfolding commit_def Let_def
  by (intro quiet_bindM quiet_if quiet_panic quiet_must quiet_setTrie quiet_ok) simp_all

lemma quiet_updateBalance: "quiet (updateBalance L acc ns)"
  by (simp add: updateBalance_def quiet_ok quiet_panic split: option.split json.split)

lemma quiet_updateNonce: "quiet (updateNonce L acc ns)"
  by (simp add: updateNonce_def quiet_ok quiet_panic split: option.split json.split)

lemma quiet_updateStorageEntry: "quiet (updateStorageEntry L e t)"
  by (simp add: updateStorageEntry_def quiet_UpdateStorage quiet_panic split: json.split)

lemma quiet_updateStorage: "quiet (updateStorage L acc ns)"
proof (cases "map_of ns ''storage''")
  case None
  then show ?thesis by (simp add: updateStorage_def quiet_ok)
next
  case (Some storage)
  have "quiet (case storage of
              JObject slots \<Rightarrow>
                bindM (forM slots (updateStorageEntry L) mpt) (\<lambda>mpt.
                bindM (commit L mpt) (\<lambda>r.
                ok (acc\<lparr>Root := r\<rparr>, deleteKey ''storage'' ns)))
            | _ \<Rightarrow> panic TypeAssertionFailed)" for mpt
    by (cases storage)
       (simp_all add: quiet_panic quiet_bindM quiet_forM quiet_updateStorageEntry quiet_commit quiet_ok)
  with Some show ?thesis
    by (simp add: updateStorage_def quiet_bindM quiet_newMPT)
qed

lemma quiet_updateAccount: "quiet (updateAccount L a acc ns sr)"
  unfolding updateAccount_def Let_def
  by (intro quiet_bindM quiet_updateBalance quiet_updateNonce quiet_updateStorage)
     (auto simp: quiet_ok quiet_panic quiet_bindM quiet_updateNonce quiet_updateStorage split: prod.split)

lemma quiet_eth_blockNumber: "quiet (eth_blockNumber L)"
  by (rule quietI) (auto simp: eth_blockNumber_def Let_def silent_def split: sum.split)

lemma quiet_debug_traceBlockByNumber: "quiet (debug_traceBlockByNumber L n)"
  by (rule quietI) (auto simp: debug_traceBlockByNumber_def Let_def silent_def split: sum.split)

lemma bindM_InrE:
  assumes "bindM m f w = (Inr y, w')"
  obtains x w1 where "m w = (Inr x, w1)" and "f x w1 = (Inr y, w')"
  using assms by (auto simp: bindM_def split: prod.splits sum.splits)

lemma quiet_run:
  assumes "quiet f" and "f w = (r, w')"
  obtains evs where "kv w' = kv w" and "trace w' = trace w @ evs" and "silent evs"
  using assms by (auto simp: quiet_def dest: spec [where x = w])

lemma must_Inr:
  assumes "must L ev w = (Inr u, w')"
  shows "w' = w\<lparr>trace := trace w @ [ev]\<rparr>"
  using assms by (auto simp: must_def split: if_splits)

lemma commit_unchanged:
  assumes "\<not> dirty mpt" and "\<not> fails L (TrieCommit (TrieRoot L (entries mpt)))"
  shows "commit L mpt w
           = (Inl NilDereference,
              w\<lparr>trace := trace w @ [TrieCommit (TrieRoot L (entries mpt))]\<rparr>)"
  using assms by (simp add: commit_def Let_def bindM_def must_def panic_def)

lemma commit_Inr:
  assumes "commit L mpt w = (Inr h, w')"
  shows "h = TrieRoot L (entries mpt)
       \<and> trace w' = trace w @ [TrieCommit h, NodeSetMerge h, DbCommit h]
       \<and> kv w' = kv w
       \<and> mptTries w' = (mptTries w)(h \<mapsto> entries mpt)"
  using assms
  by (auto simp: commit_def Let_def bindM_def must_def ok_def panic_def split: if_splits)

lemma dbPut_Inr:
  assumes "dbPut L k v w = (Inr u, w')"
  shows "trace w' = trace w @ [DbPut k v] \<and> kv w' = (kv w)(k \<mapsto> v) \<and> mptTries w' = mptTries w"
  using assms
  by (auto simp: dbPut_def bindM_def must_def split: if_splits)

lemma quiet_transition_body:
  "quiet (bindM (newMPT L (Hash rt)) (\<lambda>mpt.
          bindM (debug_traceBlockByNumber L (Number rt)) (\<lambda>calls.
          forM calls
                  (\<lambda>(address, state) mpt.
                     bindM (GetAccount L mpt address) (\<lambda>prior.
                     bindM (updateAccount L address prior state (Hash rt)) (\<lambda>next.
                     UpdateAccount L address next mpt)))
                  mpt)))"
  by (intro quiet_bindM quiet_newMPT quiet_debug_traceBlockByNumber quiet_forM)
     (auto intro!: quiet_bindM quiet_GetAccount quiet_updateAccount quiet_UpdateAccount)

lemma bindM_assoc: "bindM (bindM m f) g = bindM m (\<lambda>x. bindM (f x) g)"
  by (rule ext) (auto simp: bindM_def split: prod.splits sum.splits)

lemma applyNewStateTransition_Some:
  assumes run: "applyNewStateTransition L m rt w = (Inr (Some nextRoot), w')"
  shows "\<exists>pre. trace w' = trace w @ pre
                  @ [TrieCommit (Hash nextRoot), NodeSetMerge (Hash nextRoot), DbCommit (Hash nextRoot)]
             \<and> silent pre
             \<and> kv w' = kv w
             \<and> Number nextRoot = Number rt + 1
             \<and> mptTries w' (Hash nextRoot) \<noteq> None"
proof -
  let ?body = "bindM (newMPT L (Hash rt)) (\<lambda>mpt.
          bindM (debug_traceBlockByNumber L (Number rt)) (\<lambda>calls.
          forM calls
                  (\<lambda>(address, state) mpt.
                     bindM (GetAccount L mpt address) (\<lambda>prior.
                     bindM (updateAccount L address prior state (Hash rt)) (\<lambda>next.
                     UpdateAccount L address next mpt)))
                  mpt))"
  have shape: "applyNewStateTransition L m rt =
     bindM (eth_blockNumber L) (\<lambda>headBlockNumber.
       if Number rt \<le> headBlockNumber then
         bindM ?body (\<lambda>mpt.
         bindM (commit L mpt) (\<lambda>h.
         ok (Some (rt\<lparr>Hash := h, Number := Number rt + 1\<rparr>))))
       else ok None)"
    by (simp add: applyNewStateTransition_def bindM_assoc cong: if_cong)
  from run obtain head w1 where
    h1: "eth_blockNumber L w = (Inr head, w1)" and
    r1: "(if Number rt \<le> head then
         bindM ?body (\<lambda>mpt.
         bindM (commit L mpt) (\<lambda>h.
         ok (Some (rt\<lparr>Hash := h, Number := Number rt + 1\<rparr>))))
       else ok None) w1 = (Inr (Some nextRoot), w')"
    unfolding shape by (erule bindM_InrE)
  from r1 have le: "Number rt \<le> head"
    by (auto simp: ok_def split: if_splits)
  with r1 obtain mpt w2 where
    b2: "?body w1 = (Inr mpt, w2)" and
    r2: "bindM (commit L mpt) (\<lambda>h. ok (Some (rt\<lparr>Hash := h, Number := Number rt + 1\<rparr>))) w2
           = (Inr (Some nextRoot), w')"
    by (auto elim: bindM_InrE)
  from r2 obtain h w3 where
    c3: "commit L mpt w2 = (Inr h, w3)" and
    r3: "ok (Some (rt\<lparr>Hash := h, Number := Number rt + 1\<rparr>)) w3 = (Inr (Some nextRoot), w')"
    by (erule bindM_InrE)
  from r3 have nr: "nextRoot = rt\<lparr>Hash := h, Number := Number rt + 1\<rparr>" and w3: "w3 = w'"
    by (auto simp: ok_def)
  from quiet_eth_blockNumber h1 obtain e1 where
    k1: "kv w1 = kv w" and t1: "trace w1 = trace w @ e1" and n1: "silent e1"
    by (rule quiet_run)
  from quiet_transition_body b2 obtain e2 where
    k2: "kv w2 = kv w1" and t2: "trace w2 = trace w1 @ e2" and n2: "silent e2"
    by (rule quiet_run)
  from commit_Inr [OF c3] have
    t3: "trace w3 = trace w2 @ [TrieCommit h, NodeSetMerge h, DbCommit h]" and
    k3: "kv w3 = kv w2" and m3: "mptTries w3 = (mptTries w2)(h \<mapsto> entries mpt)"
    by simp_all
  have "trace w' = trace w @ (e1 @ e2)
                  @ [TrieCommit (Hash nextRoot), NodeSetMerge (Hash nextRoot), DbCommit (Hash nextRoot)]"
    using t1 t2 t3 w3 nr by simp
  moreover have "silent (e1 @ e2)" using n1 n2 by (simp add: silent_append)
  moreover have "kv w' = kv w" using k1 k2 k3 w3 by simp
  moreover have "Number nextRoot = Number rt + 1" using nr by simp
  moreover have "mptTries w' (Hash nextRoot) \<noteq> None" using m3 w3 nr by simp
  ultimately show ?thesis by blast
qed

lemma applyNewStateTransition_head:
  assumes "rpc_blockNumber L (rpcCount w) = Inr head" and "Number rt \<le> head"
    and "applyNewStateTransition L m rt w = (Inr r, w')"
  shows "r \<noteq> None"
  using assms
  by (auto simp: applyNewStateTransition_def eth_blockNumber_def Let_def ok_def
           elim!: bindM_InrE split: sum.splits if_splits)

section \<open>The checkpoint of a follower iteration\<close>

lemma example_iteration_fst:
  "fst (followerIteration exampleLib exampleMigrator exampleRoot exampleWorld)
     = Inr \<lparr>Hash = [0x52], Number = 6\<rparr>"
  by (simp add: follow_defs delta_defs io_defs ex_defs)

lemma example_iteration:
  "followerIteration exampleLib exampleMigrator exampleRoot exampleWorld
     = (Inr \<lparr>Hash = [0x52], Number = 6\<rparr>,
        snd (followerIteration exampleLib exampleMigrator exampleRoot exampleWorld))"
proof -
  have "(fst (followerIteration exampleLib exampleMigrator exampleRoot exampleWorld),
         snd (followerIteration exampleLib exampleMigrator exampleRoot exampleWorld))
        = followerIteration exampleLib exampleMigrator exampleRoot exampleWorld"
    by (rule prod.collapse)
  then show ?thesis unfolding example_iteration_fst by (rule sym)
qed

text \<open>
  C5. A follower iteration that has a block to apply (the cursor is not past the head the
  source chain reports) and succeeds ends with these four effects, in this order: the
  trie commit, the node-set merge and the database commit of the new root, and then the
  write of the checkpoint under \<^verbatim>\<open>"migration-root"\<close>; nothing before them in the
  iteration writes the key-value store. The root the checkpoint names is committed, and
  its number is the previous number plus one (in \<^verbatim>\<open>uint64\<close>; that is the successor of
  the natural number whenever the previous number is below \<open>2^64 - 1\<close>).
\<close>

theorem follower_iteration_checkpoint:
  assumes head: "rpc_blockNumber L (rpcCount w) = Inr head"
    and behind: "Number rt \<le> head"
    and run: "followerIteration L m rt w = (Inr nextRoot, w')"
  shows "(\<exists>pre. trace w' = trace w @ pre
                  @ [TrieCommit (Hash nextRoot), NodeSetMerge (Hash nextRoot),
                     DbCommit (Hash nextRoot),
                     DbPut migrationRootKey (jsonMarshal L nextRoot)]
             \<and> (\<forall>k v. DbPut k v \<notin> set pre))
       \<and> kv w' = (kv w)(migrationRootKey \<mapsto> jsonMarshal L nextRoot)
       \<and> mptTries w' (Hash nextRoot) \<noteq> None
       \<and> Number nextRoot = Number rt + 1
       \<and> (unat (Number rt) < 2 ^ 64 - 1 \<longrightarrow> unat (Number nextRoot) = unat (Number rt) + 1)"
proof -
  from run obtain r w1 where
    a1: "applyNewStateTransition L m rt w = (Inr r, w1)" and
    r1: "(case r of
         None \<Rightarrow> bindM (\<lambda>w. (Inr (), w\<lparr>trace := trace w @ [Sleep 2]\<rparr>)) (\<lambda>_. ok rt)
       | Some nextRoot \<Rightarrow>
           bindM (dbPut L migrationRootKey (jsonMarshal L nextRoot)) (\<lambda>_.
           ok nextRoot)) w1 = (Inr nextRoot, w')"
    unfolding followerIteration_def by (erule bindM_InrE)
  from applyNewStateTransition_head [OF head behind a1] obtain n where rn: "r = Some n"
    by auto
  with r1 obtain u w2 where
    p2: "dbPut L migrationRootKey (jsonMarshal L n) w1 = (Inr u, w2)" and
    r2: "ok n w2 = (Inr nextRoot, w')"
    by (auto elim: bindM_InrE)
  from r2 have nn: "n = nextRoot" and ww: "w2 = w'"
    by (auto simp: ok_def)
  from applyNewStateTransition_Some [OF a1 [unfolded rn nn]] obtain pre where
    t1: "trace w1 = trace w @ pre
           @ [TrieCommit (Hash nextRoot), NodeSetMerge (Hash nextRoot), DbCommit (Hash nextRoot)]"
    and n1: "silent pre" and k1: "kv w1 = kv w"
    and num: "Number nextRoot = Number rt + 1" and m1: "mptTries w1 (Hash nextRoot) \<noteq> None"
    by blast
  from dbPut_Inr [OF p2 [unfolded nn ww]] have
    t2: "trace w' = trace w1 @ [DbPut migrationRootKey (jsonMarshal L nextRoot)]" and
    k2: "kv w' = (kv w1)(migrationRootKey \<mapsto> jsonMarshal L nextRoot)" and
    m2: "mptTries w' = mptTries w1"
    by simp_all
  have tr: "trace w' = trace w @ pre
                  @ [TrieCommit (Hash nextRoot), NodeSetMerge (Hash nextRoot),
                     DbCommit (Hash nextRoot),
                     DbPut migrationRootKey (jsonMarshal L nextRoot)]"
    using t1 t2 by simp
  have np: "\<forall>k v. DbPut k v \<notin> set pre"
    using n1 by (simp add: silent_def)
  have un: "unat (Number rt) < 2 ^ 64 - 1 \<longrightarrow> unat (Number nextRoot) = unat (Number rt) + 1"
  proof
    assume lt: "unat (Number rt) < 2 ^ 64 - 1"
    have "unat (Number rt + 1) = unat (Number rt) + 1"
      using lt by (simp add: unat_word_ariths)
    with num show "unat (Number nextRoot) = unat (Number rt) + 1" by simp
  qed
  from tr np k1 k2 m1 m2 num un show ?thesis by auto
qed

theorem follower_iteration_checkpoint_witness:
  "rpc_blockNumber exampleLib (rpcCount exampleWorld) = Inr 9
   \<and> Number exampleRoot \<le> 9
   \<and> fst (followerIteration exampleLib exampleMigrator exampleRoot exampleWorld)
       = Inr \<lparr>Hash = [0x52], Number = 6\<rparr>
   \<and> (\<exists>pre. trace (snd (followerIteration exampleLib exampleMigrator exampleRoot exampleWorld))
              = trace exampleWorld @ pre
                @ [TrieCommit [0x52], NodeSetMerge [0x52], DbCommit [0x52],
                   DbPut migrationRootKey (jsonMarshal exampleLib \<lparr>Hash = [0x52], Number = 6\<rparr>)]
            \<and> (\<forall>k v. DbPut k v \<notin> set pre))
   \<and> kv (snd (followerIteration exampleLib exampleMigrator exampleRoot exampleWorld))
        migrationRootKey = Some (jsonMarshal exampleLib \<lparr>Hash = [0x52], Number = 6\<rparr>)
   \<and> unat (6 :: u64) = unat (Number exampleRoot) + 1"
proof -
  let ?w' = "snd (followerIteration exampleLib exampleMigrator exampleRoot exampleWorld)"
  have h: "rpc_blockNumber exampleLib (rpcCount exampleWorld) = Inr 9"
    by (simp add: ex_defs)
  have b: "Number exampleRoot \<le> 9"
    by (simp add: ex_defs)
  have lt: "unat (Number exampleRoot) < 2 ^ 64 - 1"
    by (simp add: ex_defs)
  note t = follower_iteration_checkpoint [OF h b example_iteration,
             unfolded migrationRoot.select_convs]
  from t have tr: "\<exists>pre. trace ?w' = trace exampleWorld @ pre
                @ [TrieCommit [0x52], NodeSetMerge [0x52], DbCommit [0x52],
                   DbPut migrationRootKey (jsonMarshal exampleLib \<lparr>Hash = [0x52], Number = 6\<rparr>)]
            \<and> (\<forall>k v. DbPut k v \<notin> set pre)"
    by (rule conjunct1)
  from t have "kv ?w' = (kv exampleWorld)(migrationRootKey \<mapsto>
                 jsonMarshal exampleLib \<lparr>Hash = [0x52], Number = 6\<rparr>)"
    by (elim conjE)
  then have kv': "kv ?w' migrationRootKey
                   = Some (jsonMarshal exampleLib \<lparr>Hash = [0x52], Number = 6\<rparr>)"
    by simp
  from t lt have un: "unat (6 :: u64) = unat (Number exampleRoot) + 1"
    by (elim conjE impE)
  show ?thesis
    by (intro conjI h b example_iteration_fst tr kv' un)
qed

section \<open>RPC failures\<close>

lemma quiet_applyNewStateTransition: "quiet (applyNewStateTransition L m rt)"
  unfolding applyNewStateTransition_def
  by (intro quiet_bindM quiet_eth_blockNumber quiet_if quiet_ok quiet_newMPT
        quiet_debug_traceBlockByNumber quiet_forM quiet_commit)
     (auto intro!: quiet_bindM quiet_GetAccount quiet_updateAccount quiet_UpdateAccount)

lemma applyNewStateTransition_past:
  assumes "rpc_blockNumber L (rpcCount w) = Inr head" and "head < Number rt"
  shows "applyNewStateTransition L m rt w
           = (Inr None, w\<lparr>rpcCount := rpcCount w + 1, trace := trace w @ [RpcBlockNumber]\<rparr>)"
  using assms
  by (simp add: applyNewStateTransition_def eth_blockNumber_def bindM_def ok_def Let_def
        not_le [symmetric])

lemma applyNewStateTransition_None:
  assumes run: "applyNewStateTransition L m rt w = (Inr None, w1)"
  shows "\<exists>head. rpc_blockNumber L (rpcCount w) = Inr head \<and> head < Number rt"
proof (cases "rpc_blockNumber L (rpcCount w)")
  case (Inl e)
  with run show ?thesis
    by (simp add: applyNewStateTransition_def eth_blockNumber_def bindM_def Let_def)
next
  case (Inr head)
  have "\<not> Number rt \<le> head"
  proof
    assume "Number rt \<le> head"
    from applyNewStateTransition_head [OF Inr this run] show False by simp
  qed
  with Inr show ?thesis by auto
qed

text \<open>
  An iteration logs a sleep exactly when the source chain answers with a head that the
  cursor is past.
\<close>

lemma followerIteration_sleep_iff:
  "\<exists>evs. trace (snd (followerIteration L m rt w)) = trace w @ evs
         \<and> ((\<exists>n. Sleep n \<in> set evs)
              \<longleftrightarrow> (\<exists>head. rpc_blockNumber L (rpcCount w) = Inr head \<and> head < Number rt))"
proof -
  let ?past = "\<exists>head. rpc_blockNumber L (rpcCount w) = Inr head \<and> head < Number rt"
  obtain r w1 where a: "applyNewStateTransition L m rt w = (r, w1)"
    by (cases "applyNewStateTransition L m rt w")
  from quiet_applyNewStateTransition a obtain e1 where
    t1: "trace w1 = trace w @ e1" and s1: "silent e1"
    by (rule quiet_run)
  from s1 have ns: "\<forall>n. Sleep n \<notin> set e1"
    by (simp add: silent_def)
  have notpast: "\<not> ?past" if "r \<noteq> Inr None"
  proof
    assume ?past
    then obtain head where "rpc_blockNumber L (rpcCount w) = Inr head" and "head < Number rt"
      by blast
    from applyNewStateTransition_past [OF this] a that show False by simp
  qed
  show ?thesis
  proof (cases r)
    case (Inl e)
    with a have "followerIteration L m rt w = (Inl e, w1)"
      by (simp add: followerIteration_def bindM_def)
    with t1 have "trace (snd (followerIteration L m rt w)) = trace w @ e1" by simp
    moreover from Inl have "\<not> ?past" by (intro notpast) simp
    ultimately show ?thesis using ns by blast
  next
    case (Inr x)
    show ?thesis
    proof (cases x)
      case None
      with Inr a have "followerIteration L m rt w
                        = (Inr rt, w1\<lparr>trace := trace w1 @ [Sleep 2]\<rparr>)"
        by (simp add: followerIteration_def bindM_def ok_def)
      with t1 have "trace (snd (followerIteration L m rt w)) = trace w @ (e1 @ [Sleep 2])"
        by simp
      moreover have "\<exists>n. Sleep n \<in> set (e1 @ [Sleep 2])" by auto
      moreover from None Inr a have ?past
        by (auto intro: applyNewStateTransition_None)
      ultimately show ?thesis by blast
    next
      case (Some nextRoot)
      let ?put = "DbPut migrationRootKey (jsonMarshal L nextRoot)"
      from Some Inr a have
        "trace (snd (followerIteration L m rt w))
           = trace w1 @ (if fails L ?put then [] else [?put])"
        by (simp add: followerIteration_def bindM_def dbPut_def must_def ok_def)
      with t1 have "trace (snd (followerIteration L m rt w))
           = trace w @ (e1 @ (if fails L ?put then [] else [?put]))"
        by simp
      moreover from ns have "\<forall>n. Sleep n \<notin> set (e1 @ (if fails L ?put then [] else [?put]))"
        by simp
      moreover from Some Inr have "\<not> ?past" by (intro notpast) simp
      ultimately show ?thesis by blast
    qed
  qed
qed

text \<open>
  C7, as amended. A failed \<^verbatim>\<open>eth_blockNumber\<close> call ends the iteration, and the loop
  with it, in a panic after that one call; so does a failed
  \<^verbatim>\<open>debug_traceBlockByNumber\<close> call. Nothing is retried. When the cursor is past the
  head the source chain reports, the follower sleeps two seconds and returns its root
  unchanged, to poll again; and in every iteration, whatever its end, a sleep is among
  the effects it adds to the log exactly in that case.
\<close>

theorem rpc_failure_aborts:
  "(rpc_blockNumber L (rpcCount w) = Inl e
      \<longrightarrow> followerIteration L m rt w
            = (Inl (RpcFailed e),
               w\<lparr>rpcCount := rpcCount w + 1, trace := trace w @ [RpcBlockNumber]\<rparr>)
        \<and> follow L m (Suc n) rt w
            = (Inl (RpcFailed e),
               w\<lparr>rpcCount := rpcCount w + 1, trace := trace w @ [RpcBlockNumber]\<rparr>))
   \<and> (rpc_blockNumber L (rpcCount w) = Inr head \<and> Number rt \<le> head
      \<and> \<not> fails L (NewStateTrie (Hash rt))
      \<and> (Hash rt = EmptyRootHash L \<or> mptTries w (Hash rt) \<noteq> None)
      \<and> rpc_traceBlock L (rpcCount w + 1) (Number rt) = Inl e
      \<longrightarrow> followerIteration L m rt w
            = (Inl (RpcFailed e),
               w\<lparr>rpcCount := rpcCount w + 2,
                 trace := trace w @ [RpcBlockNumber, NewStateTrie (Hash rt),
                                     RpcTraceBlock (Number rt)]\<rparr>))
   \<and> (rpc_blockNumber L (rpcCount w) = Inr head \<and> head < Number rt
      \<longrightarrow> followerIteration L m rt w
            = (Inr rt,
               w\<lparr>rpcCount := rpcCount w + 1, trace := trace w @ [RpcBlockNumber, Sleep 2]\<rparr>))
   \<and> (\<exists>evs. trace (snd (followerIteration L m rt w)) = trace w @ evs
         \<and> ((\<exists>k. Sleep k \<in> set evs)
              \<longleftrightarrow> (\<exists>h. rpc_blockNumber L (rpcCount w) = Inr h \<and> h < Number rt)))"
proof (intro conjI impI)
  assume f: "rpc_blockNumber L (rpcCount w) = Inl e"
  then show it: "followerIteration L m rt w
            = (Inl (RpcFailed e),
               w\<lparr>rpcCount := rpcCount w + 1, trace := trace w @ [RpcBlockNumber]\<rparr>)"
    by (simp add: follow_defs bindM_def Let_def)
  then show "follow L m (Suc n) rt w
            = (Inl (RpcFailed e),
               w\<lparr>rpcCount := rpcCount w + 1, trace := trace w @ [RpcBlockNumber]\<rparr>)"
    by (simp add: bindM_def)
next
  assume "rpc_blockNumber L (rpcCount w) = Inr head \<and> Number rt \<le> head
      \<and> \<not> fails L (NewStateTrie (Hash rt))
      \<and> (Hash rt = EmptyRootHash L \<or> mptTries w (Hash rt) \<noteq> None)
      \<and> rpc_traceBlock L (rpcCount w + 1) (Number rt) = Inl e"
  then show "followerIteration L m rt w
            = (Inl (RpcFailed e),
               w\<lparr>rpcCount := rpcCount w + 2,
                 trace := trace w @ [RpcBlockNumber, NewStateTrie (Hash rt),
                                     RpcTraceBlock (Number rt)]\<rparr>)"
    by (auto simp: follow_defs bindM_def must_def newMPT_def Let_def)
next
  assume "rpc_blockNumber L (rpcCount w) = Inr head \<and> head < Number rt"
  then show "followerIteration L m rt w
            = (Inr rt,
               w\<lparr>rpcCount := rpcCount w + 1, trace := trace w @ [RpcBlockNumber, Sleep 2]\<rparr>)"
    by (simp add: follow_defs bindM_def ok_def Let_def not_le [symmetric])
next
  show "\<exists>evs. trace (snd (followerIteration L m rt w)) = trace w @ evs
         \<and> ((\<exists>k. Sleep k \<in> set evs)
              \<longleftrightarrow> (\<exists>h. rpc_blockNumber L (rpcCount w) = Inr h \<and> h < Number rt))"
    by (rule followerIteration_sleep_iff)
qed

text \<open>
  With a source chain that does not answer, a run of three iterations ends at the first
  call with the panic; there is one call in the log and no sleep.
\<close>

theorem rpc_failure_counterexample:
  "rpc_blockNumber offlineLib (rpcCount exampleWorld) = Inl NetworkError
   \<and> fst (follow offlineLib exampleMigrator 3 exampleRoot exampleWorld)
       = Inl (RpcFailed NetworkError)
   \<and> trace (snd (follow offlineLib exampleMigrator 3 exampleRoot exampleWorld))
       = [RpcBlockNumber]
   \<and> rpc_traceBlock traceOfflineLib 1 5 = Inl NetworkError
   \<and> fst (follow traceOfflineLib exampleMigrator 3 exampleRoot exampleWorld)
       = Inl (RpcFailed NetworkError)
   \<and> trace (snd (follow traceOfflineLib exampleMigrator 3 exampleRoot exampleWorld))
       = [RpcBlockNumber, NewStateTrie [0x56], RpcTraceBlock 5]"
  by (simp add: offlineLib_def traceOfflineLib_def follow_defs io_defs ex_defs numeral_3_eq_3)

theorem rpc_failure_aborts_witness:
  "rpc_blockNumber offlineLib (rpcCount exampleWorld) = Inl NetworkError
   \<and> followerIteration offlineLib exampleMigrator exampleRoot exampleWorld
       = (Inl (RpcFailed NetworkError),
          exampleWorld\<lparr>rpcCount := 1, trace := [RpcBlockNumber]\<rparr>)
   \<and> rpc_traceBlock traceOfflineLib (rpcCount exampleWorld + 1) (Number exampleRoot)
       = Inl NetworkError
   \<and> fst (followerIteration traceOfflineLib exampleMigrator exampleRoot exampleWorld)
       = Inl (RpcFailed NetworkError)
   \<and> rpc_blockNumber exampleLib (rpcCount exampleWorld) = Inr 9
   \<and> (9 :: u64) < Number (exampleRoot\<lparr>Number := 10\<rparr>)
   \<and> followerIteration exampleLib exampleMigrator (exampleRoot\<lparr>Number := 10\<rparr>) exampleWorld
       = (Inr (exampleRoot\<lparr>Number := 10\<rparr>),
          exampleWorld\<lparr>rpcCount := 1, trace := [RpcBlockNumber, Sleep 2]\<rparr>)
   \<and> Number exampleRoot \<le> 9
   \<and> fst (followerIteration exampleLib exampleMigrator exampleRoot exampleWorld)
       = Inr \<lparr>Hash = [0x52], Number = 6\<rparr>
   \<and> (\<forall>k. Sleep k \<notin> set (trace (snd (followerIteration exampleLib exampleMigrator
                                            exampleRoot exampleWorld))))"
proof -
  have a: "rpc_blockNumber offlineLib (rpcCount exampleWorld) = Inl NetworkError"
    by (simp add: offlineLib_def ex_defs)
  have b: "rpc_blockNumber traceOfflineLib (rpcCount exampleWorld) = Inr 9
      \<and> Number exampleRoot \<le> 9
      \<and> \<not> fails traceOfflineLib (NewStateTrie (Hash exampleRoot))
      \<and> (Hash exampleRoot = EmptyRootHash traceOfflineLib
           \<or> mptTries exampleWorld (Hash exampleRoot) \<noteq> None)
      \<and> rpc_traceBlock traceOfflineLib (rpcCount exampleWorld + 1) (Number exampleRoot)
           = Inl NetworkError"
    by (simp add: traceOfflineLib_def ex_defs)
  have c: "rpc_blockNumber exampleLib (rpcCount exampleWorld) = Inr 9
      \<and> (9 :: u64) < Number (exampleRoot\<lparr>Number := 10\<rparr>)"
    by (simp add: ex_defs)
  have z: "rpcCount exampleWorld = 0" "trace exampleWorld = []"
    by (simp_all add: ex_defs)
  note t = rpc_failure_aborts [of _ exampleWorld _ exampleMigrator]
  from t [of offlineLib NetworkError exampleRoot] a
  have 1: "followerIteration offlineLib exampleMigrator exampleRoot exampleWorld
       = (Inl (RpcFailed NetworkError),
          exampleWorld\<lparr>rpcCount := 1, trace := [RpcBlockNumber]\<rparr>)"
    by (simp add: z)
  from t [of traceOfflineLib NetworkError exampleRoot _ 9] b
  have 2: "fst (followerIteration traceOfflineLib exampleMigrator exampleRoot exampleWorld)
       = Inl (RpcFailed NetworkError)"
    by simp
  from t [of exampleLib _ "exampleRoot\<lparr>Number := 10\<rparr>" _ 9] c
  have 3: "followerIteration exampleLib exampleMigrator (exampleRoot\<lparr>Number := 10\<rparr>) exampleWorld
       = (Inr (exampleRoot\<lparr>Number := 10\<rparr>),
          exampleWorld\<lparr>rpcCount := 1, trace := [RpcBlockNumber, Sleep 2]\<rparr>)"
    by (simp add: z)
  from b have b': "rpc_traceBlock traceOfflineLib (rpcCount exampleWorld + 1) (Number exampleRoot)
           = Inl NetworkError"
    by (elim conjE)
  from c have c1: "rpc_blockNumber exampleLib (rpcCount exampleWorld) = Inr 9"
    and c2: "(9 :: u64) < Number (exampleRoot\<lparr>Number := 10\<rparr>)"
    by simp_all
  have d: "Number exampleRoot \<le> 9"
    by (simp add: ex_defs)
  have notpast: "\<not> (\<exists>h. rpc_blockNumber exampleLib (rpcCount exampleWorld) = Inr h
                        \<and> h < Number exampleRoot)"
    by (simp add: ex_defs)
  from t [of exampleLib _ exampleRoot] obtain evs where
    e: "trace (snd (followerIteration exampleLib exampleMigrator exampleRoot exampleWorld))
          = trace exampleWorld @ evs" and
    i: "(\<exists>k. Sleep k \<in> set evs)
          \<longleftrightarrow> (\<exists>h. rpc_blockNumber exampleLib (rpcCount exampleWorld) = Inr h
                    \<and> h < Number exampleRoot)"
    by blast
  from i notpast have "\<forall>k. Sleep k \<notin> set evs" by blast
  with e have 4: "\<forall>k. Sleep k \<notin> set (trace (snd (followerIteration exampleLib exampleMigrator
                                            exampleRoot exampleWorld)))"
    by (simp add: z)
  show ?thesis
    by (intro conjI a 1 b' 2 c1 c2 3 d example_iteration_fst 4)
qed

section \<open>Startup\<close>

lemma short_ne_zero_hash:
  "length h < 32 \<Longrightarrow> (h = replicate 32 (0::byte)) = False"
  "length h < 32 \<Longrightarrow> (replicate 32 (0::byte) = h) = False"
  by auto

lemma dbGet_empty_iff:
  "(dbGet L key w = []) =
     (fails L (DbGet key) \<or> kv w key = None \<or> kv w key = Some [])"
  by (auto simp: dbGet_def split: option.splits)

text \<open>
  C8, as amended. The value under \<^verbatim>\<open>"migration-root"\<close> counts as empty when the read
  fails, the key is absent or the value is empty. When it is not empty and unmarshalling
  leaves a record, the follower resumes at that record and the initial migration is
  skipped. When it is empty, or unmarshalling leaves no record, the initial migration runs
  and its root is stored under the key. A failure to parse is printed and is not fatal.
\<close>

theorem startup_checkpoint:
  "((dbGet L migrationRootKey w = []) =
      (fails L (DbGet migrationRootKey) \<or> kv w migrationRootKey = None
       \<or> kv w migrationRootKey = Some []))
   \<and> (length (dbGet L migrationRootKey w) > 0
      \<and> jsonUnmarshal L (dbGet L migrationRootKey w) = (err, Some r)
      \<longrightarrow> startup L m w =
            (Inr r, if err then w\<lparr>trace := trace w @ [Println ''invalid migration-root format'']\<rparr>
                    else w))
   \<and> (dbGet L migrationRootKey w = []
      \<longrightarrow> startup L m w =
            bindM (migrateAccount L m) (\<lambda>r.
            bindM (dbPut L migrationRootKey (jsonMarshal L r)) (\<lambda>_. ok r)) w)
   \<and> (length (dbGet L migrationRootKey w) > 0
      \<and> jsonUnmarshal L (dbGet L migrationRootKey w) = (err, None)
      \<longrightarrow> startup L m w =
            bindM (migrateAccount L m) (\<lambda>r.
            bindM (dbPut L migrationRootKey (jsonMarshal L r)) (\<lambda>_. ok r))
              (if err then w\<lparr>trace := trace w @ [Println ''invalid migration-root format'']\<rparr>
               else w))"
proof (intro conjI impI)
  show "(dbGet L migrationRootKey w = []) =
      (fails L (DbGet migrationRootKey) \<or> kv w migrationRootKey = None
       \<or> kv w migrationRootKey = Some [])"
    by (rule dbGet_empty_iff)
next
  assume "length (dbGet L migrationRootKey w) > 0
      \<and> jsonUnmarshal L (dbGet L migrationRootKey w) = (err, Some r)"
  then show "startup L m w =
            (Inr r, if err then w\<lparr>trace := trace w @ [Println ''invalid migration-root format'']\<rparr>
                    else w)"
    by (simp add: startup_def readCheckpoint_def bindM_def ok_def Let_def)
next
  assume "dbGet L migrationRootKey w = []"
  then show "startup L m w =
            bindM (migrateAccount L m) (\<lambda>r.
            bindM (dbPut L migrationRootKey (jsonMarshal L r)) (\<lambda>_. ok r)) w"
    by (simp add: startup_def readCheckpoint_def bindM_def Let_def)
next
  assume "length (dbGet L migrationRootKey w) > 0
      \<and> jsonUnmarshal L (dbGet L migrationRootKey w) = (err, None)"
  then show "startup L m w =
            bindM (migrateAccount L m) (\<lambda>r.
            bindM (dbPut L migrationRootKey (jsonMarshal L r)) (\<lambda>_. ok r))
              (if err then w\<lparr>trace := trace w @ [Println ''invalid migration-root format'']\<rparr>
               else w)"
    by (simp add: startup_def readCheckpoint_def bindM_def Let_def)
qed

lemmas start_defs = startup_def readCheckpoint_def migrateAccount_def ReadHeadHeader_def
  migrateAccountLeaf_def migrateStorage_def readPreimage_def UpdateAccount_def
  checkHashCollision_def migrationRootKey_def bytes_of_string_def short_ne_zero_hash

text \<open>
  A store whose checkpoint does not parse, and a source account zkTrie with one account:
  the start does not fail; it runs the initial migration, which writes the account and
  commits, and overwrites the checkpoint.
\<close>

theorem startup_checkpoint_counterexample:
  "kv garbageWorld migrationRootKey = Some [1, 2, 3]
   \<and> jsonUnmarshal exampleLib [1, 2, 3] = (True, None)
   \<and> fst (startup exampleLib exampleMigrator garbageWorld) = Inr \<lparr>Hash = [0x52], Number = 5\<rparr>
   \<and> trace (snd (startup exampleLib exampleMigrator garbageWorld))
       = [Println ''invalid migration-root format'', NewStateTrie [0x56],
          OpenZkIterator [0x5A, 1],
          TrieUpdate (Keccak256Hash exampleLib (BytesToAddress [0xAA])) [0x56],
          TrieCommit [0x52], NodeSetMerge [0x52], DbCommit [0x52],
          DbPut migrationRootKey [0x7B, 5, 0x52]]
   \<and> kv (snd (startup exampleLib exampleMigrator garbageWorld)) migrationRootKey
       = Some [0x7B, 5, 0x52]"
  by (simp add: garbageWorld_def start_defs io_defs ex_defs)

theorem startup_checkpoint_witness:
  "dbGet exampleLib migrationRootKey resumeWorld = [0x7B, 6, 0x52]
   \<and> jsonUnmarshal exampleLib [0x7B, 6, 0x52] = (False, Some \<lparr>Hash = [0x52], Number = 6\<rparr>)
   \<and> startup exampleLib exampleMigrator resumeWorld
       = (Inr \<lparr>Hash = [0x52], Number = 6\<rparr>, resumeWorld)
   \<and> dbGet exampleLib migrationRootKey exampleWorld = []
   \<and> fst (startup exampleLib exampleMigrator exampleWorld) = Inr \<lparr>Hash = [0x52], Number = 5\<rparr>
   \<and> dbGet exampleLib migrationRootKey garbageWorld = [1, 2, 3]
   \<and> jsonUnmarshal exampleLib [1, 2, 3] = (True, None)
   \<and> fst (startup exampleLib exampleMigrator garbageWorld) = Inr \<lparr>Hash = [0x52], Number = 5\<rparr>"
proof -
  let ?run = "bindM (migrateAccount exampleLib exampleMigrator) (\<lambda>r.
            bindM (dbPut exampleLib migrationRootKey (jsonMarshal exampleLib r)) (\<lambda>_. ok r))"
  have g1: "dbGet exampleLib migrationRootKey resumeWorld = [0x7B, 6, 0x52]"
    by (simp add: resumeWorld_def dbGet_def ex_defs)
  have u1: "jsonUnmarshal exampleLib [0x7B, 6, 0x52]
              = (False, Some \<lparr>Hash = [0x52], Number = 6\<rparr>)"
    by (simp add: ex_defs)
  have g2: "dbGet exampleLib migrationRootKey exampleWorld = []"
    by (simp add: dbGet_def ex_defs)
  have g3: "dbGet exampleLib migrationRootKey garbageWorld = [1, 2, 3]"
    by (simp add: garbageWorld_def dbGet_def ex_defs)
  have u3: "jsonUnmarshal exampleLib [1, 2, 3] = (True, None)"
    by (simp add: ex_defs)
  note t = startup_checkpoint [of exampleLib _ _ _ exampleMigrator]
  from t [of resumeWorld False "\<lparr>Hash = [0x52], Number = 6\<rparr>"] g1 u1
  have 1: "startup exampleLib exampleMigrator resumeWorld
       = (Inr \<lparr>Hash = [0x52], Number = 6\<rparr>, resumeWorld)"
    by simp
  from t [of exampleWorld] g2
  have "startup exampleLib exampleMigrator exampleWorld = ?run exampleWorld"
    by simp
  moreover have "fst (?run exampleWorld) = Inr \<lparr>Hash = [0x52], Number = 5\<rparr>"
    by (simp add: start_defs io_defs ex_defs)
  ultimately have 2: "fst (startup exampleLib exampleMigrator exampleWorld)
                       = Inr \<lparr>Hash = [0x52], Number = 5\<rparr>"
    by simp
  from t [of garbageWorld True] g3 u3
  have "startup exampleLib exampleMigrator garbageWorld
          = ?run (garbageWorld\<lparr>trace := trace garbageWorld
                                  @ [Println ''invalid migration-root format'']\<rparr>)"
    by simp
  moreover have "fst (?run (garbageWorld\<lparr>trace := trace garbageWorld
                                  @ [Println ''invalid migration-root format'']\<rparr>))
                   = Inr \<lparr>Hash = [0x52], Number = 5\<rparr>"
    by (simp add: garbageWorld_def start_defs io_defs ex_defs)
  ultimately have 3: "fst (startup exampleLib exampleMigrator garbageWorld)
                       = Inr \<lparr>Hash = [0x52], Number = 5\<rparr>"
    by simp
  show ?thesis
    by (intro conjI g1 u1 1 g2 2 g3 u3 3)
qed

section \<open>Sealing\<close>

lemma BEDROCK_length: "\<not> length BedrockTransitionBlockExtraData > 32"
  by (simp add: BedrockTransitionBlockExtraData_def bytes_of_string_def)

lemma seal_sentinel:
  assumes "headerNumbers w (headHeaderHash w) = Some num"
    and "headers w (num, headHeaderHash w) = Some hdr"
    and "Extra hdr = BedrockTransitionBlockExtraData"
  shows "migrateHeadAndGenesis L stateRoot w =
           (Inr \<lparr>TransitionHeight = num, TransitionTimestamp = Time hdr,
                 TransitionBlockHash = headHeaderHash w\<rparr>, w)"
  using assms BEDROCK_length by (simp add: migrateHeadAndGenesis_def Let_def)

lemma seal_build:
  assumes num: "headerNumbers w (headHeaderHash w) = Some num"
    and hdr: "headers w (num, headHeaderHash w) = Some hdr"
    and ext: "Extra hdr \<noteq> BedrockTransitionBlockExtraData"
    and run: "migrateHeadAndGenesis L stateRoot w = (Inr res, w')"
  shows "\<exists>g cfg w1.
           w' = sealedWorld L (NewBlock L (bedrockHeader L hdr stateRoot)) g cfg w1
         \<and> res = \<lparr>TransitionHeight = NumberU64 (NewBlock L (bedrockHeader L hdr stateRoot)),
                  TransitionTimestamp = Time (blockHeader (NewBlock L (bedrockHeader L hdr stateRoot))),
                  TransitionBlockHash = BlockHash L (NewBlock L (bedrockHeader L hdr stateRoot))\<rparr>"
proof -
  let ?b = "NewBlock L (bedrockHeader L hdr stateRoot)"
  let ?res = "\<lparr>TransitionHeight = NumberU64 ?b,
                  TransitionTimestamp = Time (blockHeader ?b),
                  TransitionBlockHash = BlockHash L ?b\<rparr>"
  from run num hdr ext BEDROCK_length have
    r0: "bindM (dbFactory L stateRoot) (\<lambda>_.
         bindM (must L (StateDBCommit stateRoot)) (\<lambda>_.
         bindM (must L (DbCommit stateRoot)) (\<lambda>_.
         bindM (\<lambda>w. (Inr (), writeBedrockBlock L ?b w)) (\<lambda>_.
         bindM (updateChainConfig ?b) (\<lambda>_.
         ok ?res))))) w = (Inr res, w')"
    by (simp add: migrateHeadAndGenesis_def Let_def)
  then obtain w1 w2 w3 w4 w5 where
    "dbFactory L stateRoot w = (Inr (), w1)"
    "must L (StateDBCommit stateRoot) w1 = (Inr (), w2)"
    "must L (DbCommit stateRoot) w2 = (Inr (), w3)"
    "(Inr (), writeBedrockBlock L ?b w3) = (Inr (), w4)"
    and u: "updateChainConfig ?b w4 = (Inr (), w5)"
    and o: "ok ?res w5 = (Inr res, w')"
    by (elim bindM_InrE) auto
  then have w4: "w4 = writeBedrockBlock L ?b w3" by simp
  from u obtain g cfg where "w5 = WriteChainConfig g cfg w4"
    by (auto simp: updateChainConfig_def Let_def split: option.splits)
  with w4 o show ?thesis
    by (auto simp: ok_def sealedWorld_def)
qed

lemma sealedWorld_head:
  "headHeaderHash (sealedWorld L b g cfg w) = BlockHash L b"
  "headerNumbers (sealedWorld L b g cfg w) (BlockHash L b) = Some (NumberU64 b)"
  "headers (sealedWorld L b g cfg w) (NumberU64 b, BlockHash L b) = Some (blockHeader b)"
  "tds (sealedWorld L b g cfg w) (NumberU64 b, BlockHash L b) = Some (Difficulty (blockHeader b))"
  by (simp_all add: sealedWorld_def WriteChainConfig_def writeBedrockBlock_def Let_def
        WriteTd_def WriteBlock_def WriteHeader_def WriteReceipts_def WriteCanonicalHash_def
        WriteHeadBlockHash_def WriteHeadFastBlockHash_def WriteHeadHeaderHash_def
        WriteFinalizedBlockHash_def BlockHash_def NumberU64_def)

lemma bedrock_block_header:
  "Extra (blockHeader (NewBlock L (bedrockHeader L hdr r))) = BedrockTransitionBlockExtraData"
  "Difficulty (blockHeader (NewBlock L (bedrockHeader L hdr r))) = 0"
  "HeaderNumber (blockHeader (NewBlock L (bedrockHeader L hdr r))) = HeaderNumber hdr + 1"
  "ParentHash (blockHeader (NewBlock L (bedrockHeader L hdr r))) = HeaderHash L hdr"
  by (simp_all add: NewBlock_def bedrockHeader_def)

lemma seal_Inr_cases:
  assumes run: "migrateHeadAndGenesis L stateRoot w = (Inr res, w')"
  obtains num hdr where "headerNumbers w (headHeaderHash w) = Some num"
    and "headers w (num, headHeaderHash w) = Some hdr"
  using assms
  by (auto simp: migrateHeadAndGenesis_def Let_def split: option.splits if_splits)

lemma example_seal_fst:
  "fst (migrateHeadAndGenesis exampleLib [0x56] exampleWorld) =
     Inr \<lparr>TransitionHeight = 6, TransitionTimestamp = 0, TransitionBlockHash = [0x48, 6]\<rparr>"
  by (simp add: seal_defs io_defs ex_defs)

lemma example_seal:
  "migrateHeadAndGenesis exampleLib [0x56] exampleWorld =
     (Inr \<lparr>TransitionHeight = 6, TransitionTimestamp = 0, TransitionBlockHash = [0x48, 6]\<rparr>,
      snd (migrateHeadAndGenesis exampleLib [0x56] exampleWorld))"
proof -
  have "(fst (migrateHeadAndGenesis exampleLib [0x56] exampleWorld),
         snd (migrateHeadAndGenesis exampleLib [0x56] exampleWorld))
        = migrateHeadAndGenesis exampleLib [0x56] exampleWorld"
    by (rule prod.collapse)
  then show ?thesis unfolding example_seal_fst by (rule sym)
qed

lemma example_head:
  "headerNumbers exampleWorld (headHeaderHash exampleWorld) = Some 5
   \<and> headers exampleWorld (5, headHeaderHash exampleWorld) = Some exampleHead
   \<and> Extra exampleHead \<noteq> BedrockTransitionBlockExtraData
   \<and> Difficulty exampleHead = 7"
  by (simp add: ex_defs BedrockTransitionBlockExtraData_def bytes_of_string_def)

text \<open>
  C4. When the head header carries the sentinel \<^verbatim>\<open>"BEDROCK"\<close>, \<open>migrateHeadAndGenesis\<close>
  returns the head's number, time and hash and leaves the world as it was. Whenever a run
  succeeds, a second run on the world it leaves (with any state root) returns the same
  result and changes nothing.
\<close>

theorem seal_idempotent:
  "(headerNumbers w (headHeaderHash w) = Some num
      \<and> headers w (num, headHeaderHash w) = Some hdr
      \<and> Extra hdr = BedrockTransitionBlockExtraData
    \<longrightarrow> migrateHeadAndGenesis L stateRoot w =
           (Inr \<lparr>TransitionHeight = num, TransitionTimestamp = Time hdr,
                 TransitionBlockHash = headHeaderHash w\<rparr>, w))
   \<and> (migrateHeadAndGenesis L stateRoot w = (Inr res, w')
    \<longrightarrow> migrateHeadAndGenesis L stateRoot' w' = (Inr res, w'))"
proof (intro conjI impI)
  assume "headerNumbers w (headHeaderHash w) = Some num
      \<and> headers w (num, headHeaderHash w) = Some hdr
      \<and> Extra hdr = BedrockTransitionBlockExtraData"
  then show "migrateHeadAndGenesis L stateRoot w =
           (Inr \<lparr>TransitionHeight = num, TransitionTimestamp = Time hdr,
                 TransitionBlockHash = headHeaderHash w\<rparr>, w)"
    by (simp add: seal_sentinel)
next
  assume run: "migrateHeadAndGenesis L stateRoot w = (Inr res, w')"
  then obtain n h where n: "headerNumbers w (headHeaderHash w) = Some n"
    and h: "headers w (n, headHeaderHash w) = Some h"
    by (rule seal_Inr_cases)
  show "migrateHeadAndGenesis L stateRoot' w' = (Inr res, w')"
  proof (cases "Extra h = BedrockTransitionBlockExtraData")
    case True
    from seal_sentinel [OF n h True, of L stateRoot] run
    have "w' = w" and "res = \<lparr>TransitionHeight = n, TransitionTimestamp = Time h,
                 TransitionBlockHash = headHeaderHash w\<rparr>"
      by simp_all
    with seal_sentinel [OF n h True, of L stateRoot'] show ?thesis by simp
  next
    case False
    let ?b = "NewBlock L (bedrockHeader L h stateRoot)"
    from seal_build [OF n h False run] obtain g cfg w1 where
      w': "w' = sealedWorld L ?b g cfg w1" and
      res: "res = \<lparr>TransitionHeight = NumberU64 ?b,
                  TransitionTimestamp = Time (blockHeader ?b),
                  TransitionBlockHash = BlockHash L ?b\<rparr>"
      by blast
    have "migrateHeadAndGenesis L stateRoot' (sealedWorld L ?b g cfg w1) =
           (Inr \<lparr>TransitionHeight = NumberU64 ?b, TransitionTimestamp = Time (blockHeader ?b),
                 TransitionBlockHash = headHeaderHash (sealedWorld L ?b g cfg w1)\<rparr>,
            sealedWorld L ?b g cfg w1)"
      by (rule seal_sentinel) (simp_all add: sealedWorld_head bedrock_block_header)
    with w' res show ?thesis by (simp add: sealedWorld_head)
  qed
qed

theorem seal_idempotent_witness:
  "fst (migrateHeadAndGenesis exampleLib [0x56] exampleWorld) =
     Inr \<lparr>TransitionHeight = 6, TransitionTimestamp = 0, TransitionBlockHash = [0x48, 6]\<rparr>
   \<and> migrateHeadAndGenesis exampleLib [0x52] (snd (migrateHeadAndGenesis exampleLib [0x56] exampleWorld)) =
     (Inr \<lparr>TransitionHeight = 6, TransitionTimestamp = 0, TransitionBlockHash = [0x48, 6]\<rparr>,
      snd (migrateHeadAndGenesis exampleLib [0x56] exampleWorld))"
proof -
  let ?res = "\<lparr>TransitionHeight = 6, TransitionTimestamp = 0, TransitionBlockHash = [0x48, 6]\<rparr>"
  let ?w' = "snd (migrateHeadAndGenesis exampleLib [0x56] exampleWorld)"
  have first: "migrateHeadAndGenesis exampleLib [0x56] exampleWorld = (Inr ?res, ?w')"
    by (rule example_seal)
  with seal_idempotent [of exampleWorld _ _ exampleLib "[0x56]" ?res ?w' "[0x52]"]
  have second: "migrateHeadAndGenesis exampleLib [0x52] ?w' = (Inr ?res, ?w')"
    by blast
  from example_seal_fst second show ?thesis by (rule conjI)
qed

text \<open>
  C6, as amended. When the head header does not carry the sentinel and sealing succeeds,
  the total difficulty stored at the transition block's hash and number is 0, the
  difficulty of the transition block itself, whatever the difficulty of the head header;
  the transition block is the stored header at that place, and its parent is the head.
\<close>

theorem seal_total_difficulty:
  assumes "headerNumbers w (headHeaderHash w) = Some num"
    and "headers w (num, headHeaderHash w) = Some hdr"
    and "Extra hdr \<noteq> BedrockTransitionBlockExtraData"
    and "migrateHeadAndGenesis L stateRoot w = (Inr res, w')"
  shows "tds w' (TransitionHeight res, TransitionBlockHash res) = Some 0
       \<and> (\<exists>T. headers w' (TransitionHeight res, TransitionBlockHash res) = Some T
              \<and> TransitionBlockHash res = HeaderHash L T
              \<and> ParentHash T = HeaderHash L hdr
              \<and> Difficulty T = 0)"
proof -
  let ?b = "NewBlock L (bedrockHeader L hdr stateRoot)"
  from seal_build [OF assms] obtain g cfg w1 where
      w': "w' = sealedWorld L ?b g cfg w1" and
      res: "res = \<lparr>TransitionHeight = NumberU64 ?b,
                  TransitionTimestamp = Time (blockHeader ?b),
                  TransitionBlockHash = BlockHash L ?b\<rparr>"
    by blast
  then show ?thesis
    by (simp add: sealedWorld_head bedrock_block_header) (simp add: BlockHash_def)
qed

text \<open>A head header of difficulty 7: the total difficulty stored is 0, not 7.\<close>

theorem seal_total_difficulty_counterexample:
  "headers exampleWorld (5, headHeaderHash exampleWorld) = Some exampleHead
   \<and> Difficulty exampleHead = 7
   \<and> fst (migrateHeadAndGenesis exampleLib [0x56] exampleWorld) =
       Inr \<lparr>TransitionHeight = 6, TransitionTimestamp = 0, TransitionBlockHash = [0x48, 6]\<rparr>
   \<and> tds (snd (migrateHeadAndGenesis exampleLib [0x56] exampleWorld)) (6, [0x48, 6]) = Some 0
   \<and> tds (snd (migrateHeadAndGenesis exampleLib [0x56] exampleWorld)) (6, [0x48, 6])
       \<noteq> Some (Difficulty exampleHead)"
proof -
  have "tds (snd (migrateHeadAndGenesis exampleLib [0x56] exampleWorld)) (6, [0x48, 6]) = Some 0"
    by (simp add: seal_defs io_defs ex_defs)
  with example_head example_seal_fst show ?thesis by simp
qed

theorem seal_total_difficulty_witness:
  "headerNumbers exampleWorld (headHeaderHash exampleWorld) = Some 5
   \<and> headers exampleWorld (5, headHeaderHash exampleWorld) = Some exampleHead
   \<and> Extra exampleHead \<noteq> BedrockTransitionBlockExtraData
   \<and> tds (snd (migrateHeadAndGenesis exampleLib [0x56] exampleWorld)) (6, [0x48, 6]) = Some 0"
proof -
  let ?res = "\<lparr>TransitionHeight = 6, TransitionTimestamp = 0, TransitionBlockHash = [0x48, 6]\<rparr>"
  let ?w' = "snd (migrateHeadAndGenesis exampleLib [0x56] exampleWorld)"
  from example_head have
    n: "headerNumbers exampleWorld (headHeaderHash exampleWorld) = Some 5" and
    h: "headers exampleWorld (5, headHeaderHash exampleWorld) = Some exampleHead" and
    e: "Extra exampleHead \<noteq> BedrockTransitionBlockExtraData"
    by simp_all
  from seal_total_difficulty [OF n h e example_seal]
  have "tds ?w' (6, [0x48, 6]) = Some 0" by simp
  with n h e show ?thesis by simp
qed

section \<open>The values written to storage tries\<close>

text \<open>
  C1, at a failing input. A block delta gives the value of slot \<^verbatim>\<open>0x01\<close> as the hex
  string of the word \<^verbatim>\<open>0x...feed\<close>. \<open>updateAccount\<close> writes the RLP encoding of the last
  32 characters of that string (\<^verbatim>\<open>0xa0\<close> and 32 ASCII codes); the RLP encoding of the
  value without its leading zero bytes is \<^verbatim>\<open>0x82 0xfe 0xed\<close>. For a leaf of a source
  storage zkTrie with the value \<^verbatim>\<open>0x...beef\<close>, the \<^verbatim>\<open>stateMigrator\<close> version passes the
  32 bytes of the leaf as they are, and the \<^verbatim>\<open>migrator\<close> version passes
  \<^verbatim>\<open>0x82 0xbe 0xef\<close>.
\<close>

theorem delta_storage_value_written:
  "trace (snd (updateAccount exampleLib [0xBB] None
                 [(''storage'', JObject [(''0x01'', JString exampleValueHex)])] [0x56] exampleWorld))
     = [NewStateTrie [0x56],
        TrieUpdate (Keccak256Hash exampleLib (HexToHash ''0x01''))
                   (0xA0 # bytes_of_string (drop 34 exampleValueHex)),
        TrieCommit [0x52], NodeSetMerge [0x52], DbCommit [0x52]]
   \<and> rlp_EncodeToBytes (TrimLeftZeroes (FromHex exampleValueHex)) = [0x82, 0xFE, 0xED]
   \<and> trace (snd (stateMigrator_migrateStorage exampleLib exampleMigrator [0xBB] [0x5A, 2] exampleWorld))
     = [NewStateTrie [0x56], OpenZkIterator [0x5A, 2],
        TrieUpdate (Keccak256Hash exampleLib [2]) (replicate 30 0 @ [0xBE, 0xEF]),
        TrieCommit [0x52], MergeSet [0x52], NodeSetMerge [0x52], DbCommit [0x52]]
   \<and> trace (snd (migrateStorage exampleLib exampleMigrator [0xBB] [0x5A, 2] exampleWorld))
     = [NewStateTrie [0x56], OpenZkIterator [0x5A, 2],
        TrieUpdate (Keccak256Hash exampleLib [2]) [0x82, 0xBE, 0xEF],
        TrieCommit [0x52], NodeSetMerge [0x52], DbCommit [0x52]]"
proof -
  have enc: "encodeToRlp (bytes_of_string exampleValueHex)
               = 0xA0 # bytes_of_string (drop 34 exampleValueHex)"
    by (simp add: encodeToRlp_last32 last32_def exampleValueHex_def bytes_of_string_def
          TrimLeftZeroes_def rlp_EncodeToBytes_def)
  have a: "trace (snd (updateAccount exampleLib [0xBB] None
                 [(''storage'', JObject [(''0x01'', JString exampleValueHex)])] [0x56] exampleWorld))
     = [NewStateTrie [0x56],
        TrieUpdate (Keccak256Hash exampleLib (HexToHash ''0x01''))
                   (encodeToRlp (bytes_of_string exampleValueHex)),
        TrieCommit [0x52], NodeSetMerge [0x52], DbCommit [0x52]]"
    by (simp add: delta_defs io_defs ex_defs)
  have b: "rlp_EncodeToBytes (TrimLeftZeroes (FromHex exampleValueHex)) = [0x82, 0xFE, 0xED]"
    by (simp add: FromHex_def has0xPrefix_def exampleValueHex_def hexval_def Let_def
          TrimLeftZeroes_def rlp_EncodeToBytes_def)
  have c: "trace (snd (stateMigrator_migrateStorage exampleLib exampleMigrator [0xBB] [0x5A, 2] exampleWorld))
     = [NewStateTrie [0x56], OpenZkIterator [0x5A, 2],
        TrieUpdate (Keccak256Hash exampleLib [2]) (replicate 30 0 @ [0xBE, 0xEF]),
        TrieCommit [0x52], MergeSet [0x52], NodeSetMerge [0x52], DbCommit [0x52]]"
    by (simp add: stateMigrator_migrateStorage_def stateMigrator_readPreimage_def io_defs ex_defs
          UpdateStorage_def BytesToHash_def HashLength_def)
  have e2: "encodeToRlp (replicate 30 0 @ [0xBE, 0xEF]) = [0x82, 0xBE, 0xEF]"
    by (simp add: encodeToRlp_last32 last32_def TrimLeftZeroes_replicate)
       (simp add: TrimLeftZeroes_def rlp_EncodeToBytes_def)
  have d: "trace (snd (migrateStorage exampleLib exampleMigrator [0xBB] [0x5A, 2] exampleWorld))
     = [NewStateTrie [0x56], OpenZkIterator [0x5A, 2],
        TrieUpdate (Keccak256Hash exampleLib [2]) (encodeToRlp (replicate 30 0 @ [0xBE, 0xEF])),
        TrieCommit [0x52], NodeSetMerge [0x52], DbCommit [0x52]]"
    by (simp add: migrateStorage_def readPreimage_def io_defs ex_defs
          UpdateStorage_def BytesToHash_def HashLength_def checkHashCollision_def)
  from a b c d show ?thesis by (simp only: enc e2 simp_thms)
qed

section \<open>The collision check\<close>

lemma zero_hash_ne_singleton: "replicate 32 (0::byte) \<noteq> [x]"
proof
  assume "replicate 32 (0::byte) = [x]"
  then have "length (replicate 32 (0::byte)) = length [x]" by (rule arg_cong)
  then show False by simp
qed

text \<open>
  Only the leaf positions count: when no leaf position has a hash under which the store
  holds a zkTrie node, the check passes, whatever the store holds under the hashes of the
  other positions.
\<close>

lemma checkHashCollision_nodes:
  assumes "\<And>it. it \<in> set nodes \<Longrightarrow> mptLeaf it \<Longrightarrow>
             dbGet L (mptHash it) w = [] \<or> \<not> NewTreeNodeFromBlob L (dbGet L (mptHash it) w)"
  shows "forM nodes
       (\<lambda>it _. if \<not> mptLeaf it then ok ()
               else (\<lambda>w. let data = dbGet L (mptHash it) w in
                          if length data = 0 then (Inr (), w)
                          else if NewTreeNodeFromBlob L data
                               then (Inl (HashCollisionDetected (mptHash it)), w)
                               else (Inr (), w)))
       () w = (Inr (), w)"
  using assms
proof (induction nodes)
  case Nil
  then show ?case by (simp add: ok_def)
next
  case (Cons n ns)
  from Cons.prems [of n] have
    "\<not> mptLeaf n \<or> dbGet L (mptHash n) w = []
       \<or> \<not> NewTreeNodeFromBlob L (dbGet L (mptHash n) w)"
    by auto
  moreover have "forM ns
       (\<lambda>it _. if \<not> mptLeaf it then ok ()
               else (\<lambda>w. let data = dbGet L (mptHash it) w in
                          if length data = 0 then (Inr (), w)
                          else if NewTreeNodeFromBlob L data
                               then (Inl (HashCollisionDetected (mptHash it)), w)
                               else (Inr (), w)))
       () w = (Inr (), w)"
    by (rule Cons.IH) (simp add: Cons.prems)
  ultimately show ?case
    by (auto simp: bindM_def ok_def Let_def)
qed

lemma checkHashCollision_leaves_only:
  assumes "\<And>it. it \<in> set (NodeIterator L t) \<Longrightarrow> mptLeaf it \<Longrightarrow>
             dbGet L (mptHash it) w = [] \<or> \<not> NewTreeNodeFromBlob L (dbGet L (mptHash it) w)"
  shows "checkHashCollision L t w = (Inr (), w)"
  unfolding checkHashCollision_def using assms by (rule checkHashCollision_nodes)

text \<open>
  C3, at a failing input. The store holds, under the hash of an inner node of the MPT,
  bytes that decode as a zkTrie node. \<open>checkHashCollision\<close> returns without an error,
  because it skips every position that is not a leaf; had the same hash been that of a
  leaf position, it would have stopped with the collision.
\<close>

theorem collision_guard_skips_inner_nodes:
  "kv collidingWorld [0x52] = Some [4, 1, 2]
   \<and> NewTreeNodeFromBlob collidingLib [4, 1, 2]
   \<and> checkHashCollision collidingLib [[0x4B, 2] \<mapsto> [0x82, 0xBE, 0xEF]] collidingWorld
       = (Inr (), collidingWorld)
   \<and> checkHashCollision leafOnlyLib [[0x4B, 2] \<mapsto> [0x82, 0xBE, 0xEF]] collidingWorld
       = (Inl (HashCollisionDetected [0x52]), collidingWorld)"
  by (simp add: collidingWorld_def collidingLib_def leafOnlyLib_def checkHashCollision_def
        io_defs ex_defs zero_hash_ne_singleton)

end
